theory Spec2Isabelle
  imports Complex_Main "HOL-Library.Log_Nat"
begin

section \<open>PicEdit: the editor page and its export pipeline\<close>

text \<open>
  The editor page (\<^verbatim>\<open>EditPage\<close>) keeps its state in React state hooks and two DOM
  references. The state is one record here, with the hooks' names; every handler is a
  function from the state to the new state. A JavaScript number is modelled by the
  rational that it denotes, except the rotation angle, which the code only ever changes
  by whole degrees and which is an integer. The arithmetic of the crop computations (the
  zoom scale, the rectangle that \<^verbatim>\<open>finishCrop\<close> cuts out and the one that
  \<^verbatim>\<open>handleSave\<close> cuts out), whose results become the sizes of canvases, is that of
  IEEE 754 doubles: every quotient and product is rounded to the nearest double, and a
  whole pixel can depend on it. The arithmetic on the coordinates of text and strokes
  is exact: rounding in the last place of a coordinate is not modelled. Sizes of images
  and canvases are natural numbers, as in the DOM.
\<close>

subsection \<open>JavaScript and DOM primitives\<close>

text \<open>
  JavaScript's \<^verbatim>\<open>%\<close> on integers, for a divisor that is not 0: the remainder takes
  the sign of the dividend.
\<close>

definition js_rem :: "int \<Rightarrow> int \<Rightarrow> int" where
  "js_rem a b = sgn a * (\<bar>a\<bar> mod \<bar>b\<bar>)"

text \<open>
  Double precision. \<open>rne\<close> rounds a rational to the nearest integer, a tie to the even
  one. \<open>round_binary p e q\<close> is the nearest to \<open>q\<close> among the numbers \<open>m * 2^k / 2^e\<close>
  with an integer \<open>m\<close> of at most \<open>p\<close> bits and \<open>k \<ge> 0\<close>, a tie to the even
  \<open>m\<close>: \<open>bitlen\<close> is the number of bits of an integer, so \<open>k\<close> is the number of bits
  that \<open>\<bar>q\<bar> * 2^e\<close> has beyond \<open>p\<close>. A double has 53 significant bits and a least
  exponent of \<open>-1074\<close>. The finite doubles are below \<open>2^1024\<close> in magnitude; a result
  that is not (an overflow, a division by zero) stands for a value that is not finite,
  an infinity or \<^verbatim>\<open>NaN\<close>. The operands are finite numbers in this program: the crop
  rectangle, the scale and the sizes of canvases.
\<close>

definition rne :: "rat \<Rightarrow> int" where
  "rne m =
     (let f = \<lfloor>m\<rfloor>; r = m - of_int f
      in if r < 1 / 2 then f else if 1 / 2 < r then f + 1 else if even f then f else f + 1)"

definition round_binary :: "nat \<Rightarrow> nat \<Rightarrow> rat \<Rightarrow> rat" where
  "round_binary p e q =
     (let a = \<bar>q\<bar> * 2 ^ e;
          k = nat (bitlen \<lfloor>a\<rfloor> - int p)
      in sgn q * (of_int (rne (a / 2 ^ k)) * 2 ^ k / 2 ^ e))"

definition round_double :: "rat \<Rightarrow> rat" where
  "round_double = round_binary 53 1074"

definition finite_double :: "rat \<Rightarrow> bool" where
  "finite_double q = (\<bar>q\<bar> < 2 ^ 1024)"

definition not_finite :: rat where
  "not_finite = 2 ^ 1024"

text \<open>JavaScript's \<^verbatim>\<open>*\<close> and \<^verbatim>\<open>/\<close> on numbers.\<close>

definition js_mul :: "rat \<Rightarrow> rat \<Rightarrow> rat" where
  "js_mul a b = round_double (a * b)"

definition js_div :: "rat \<Rightarrow> rat \<Rightarrow> rat" where
  "js_div a b = (if b = 0 then not_finite else round_double (a / b))"

text \<open>
  Assigning a number to \<^verbatim>\<open>canvas.width\<close> (an \<^verbatim>\<open>unsigned long\<close> attribute that
  reflects a non-negative integer): a number that is not finite converts to 0; a
  finite one is truncated towards zero and taken modulo \<open>2^32\<close>; a result above
  \<open>2^31 - 1\<close> is replaced by the attribute's default.
\<close>

definition js_trunc :: "rat \<Rightarrow> int" where
  "js_trunc q = (if 0 \<le> q then \<lfloor>q\<rfloor> else - \<lfloor>- q\<rfloor>)"

definition canvas_dim :: "nat \<Rightarrow> rat \<Rightarrow> nat" where
  "canvas_dim dflt q =
     (if \<not> finite_double q then 0
      else
        let n = js_trunc q mod 4294967296
        in if n \<le> 2147483647 then nat n else dflt)"

text \<open>\<^verbatim>\<open>String.prototype.split\<close> with a one-character separator.\<close>

fun split :: "char \<Rightarrow> string \<Rightarrow> string list" where
  "split sep [] = [[]]"
| "split sep (c # cs) =
     (if c = sep then [] # split sep cs
      else (c # hd (split sep cs)) # tl (split sep cs))"

text \<open>Indexing an array: \<^verbatim>\<open>undefined\<close> out of range.\<close>

fun index :: "'a list \<Rightarrow> nat \<Rightarrow> 'a option" where
  "index [] n = None"
| "index (v # vs) 0 = Some v"
| "index (v # vs) (Suc n) = index vs n"

subsection \<open>The canvas\<close>

text \<open>
  A 2D canvas is modelled by its size, the drawing state of its context (filter,
  transformation, fill style, font, and the stack of saved states) and the list of the
  drawing calls that reached its bitmap, oldest first, each with the filter and the
  transformation that were current at the call. An image source is either image data
  decoded by the browser or another canvas (its size and drawing calls). Image data is
  either a data URI as uploaded, or the data URI that \<^verbatim>\<open>toDataURL\<close> returns for a canvas,
  kept as the canvas it encodes.
\<close>

datatype filt = FNone | FTone rat rat rat

datatype xform = Translate rat rat | Rotate int | Scale int int

datatype image_data =
    Uploaded string
  | DataURL string "rat option" nat nat "draw list"
and source =
    Img image_data
  | Surface nat nat "draw list"
and draw =
    ClearRect "xform list" rat rat rat rat
  | DrawImage filt "xform list" source "(rat \<times> rat \<times> rat \<times> rat) option" rat rat "(rat \<times> rat) option"
  | FillText filt "xform list" "rat \<times> string" string string rat rat
  | MoveTo rat rat
  | StrokeTo string rat rat rat rat

text \<open>
  \<^verbatim>\<open>DrawImage filter transformation source sourceRect dx dy destSize\<close> is a
  \<^verbatim>\<open>drawImage\<close> call; \<^verbatim>\<open>FillText filter transformation font colour text x y\<close> is a
  \<^verbatim>\<open>fillText\<close> call, the font a size in pixels and a family. On the drawing overlay,
  \<^verbatim>\<open>MoveTo x y\<close> is \<^verbatim>\<open>beginPath\<close> and \<^verbatim>\<open>moveTo\<close>, and
  \<^verbatim>\<open>StrokeTo colour lineWidth alpha x y\<close> is \<^verbatim>\<open>lineTo\<close> and \<^verbatim>\<open>stroke\<close> in that
  style. \<^verbatim>\<open>Rotate d\<close> is \<^verbatim>\<open>ctx.rotate((d * Math.PI) / 180)\<close>.
\<close>

datatype error = TypeError | InvalidStateError

record ctx_state =
  cs_filter :: filt
  cs_transform :: "xform list"
  cs_fillStyle :: string
  cs_font :: "rat \<times> string"

record canvas =
  cv_width :: nat
  cv_height :: nat
  cv_state :: ctx_state
  cv_stack :: "ctx_state list"
  cv_log :: "draw list"

definition default_ctx :: ctx_state where
  "default_ctx =
     \<lparr>cs_filter = FNone, cs_transform = [], cs_fillStyle = ''#000000'',
      cs_font = (10, ''sans-serif'')\<rparr>"

text \<open>\<^verbatim>\<open>document.createElement('canvas')\<close>: 300 by 150, transparent.\<close>

definition createCanvas :: canvas where
  "createCanvas =
     \<lparr>cv_width = 300, cv_height = 150, cv_state = default_ctx, cv_stack = [], cv_log = []\<rparr>"

text \<open>
  Setting the width or the height, even to the value it has, clears the bitmap and
  resets the context to its default state.
\<close>

definition set_width :: "rat \<Rightarrow> canvas \<Rightarrow> canvas" where
  "set_width q cv =
     cv\<lparr>cv_width := canvas_dim 300 q, cv_state := default_ctx, cv_stack := [], cv_log := []\<rparr>"

definition set_height :: "rat \<Rightarrow> canvas \<Rightarrow> canvas" where
  "set_height q cv =
     cv\<lparr>cv_height := canvas_dim 150 q, cv_state := default_ctx, cv_stack := [], cv_log := []\<rparr>"

definition put :: "draw \<Rightarrow> canvas \<Rightarrow> canvas" where
  "put d cv = cv\<lparr>cv_log := cv_log cv @ [d]\<rparr>"

text \<open>
  \<^verbatim>\<open>clearRect\<close>: a rectangle that covers the whole bitmap under the identity
  transformation leaves nothing of the earlier drawing calls.
\<close>

definition clearRect :: "rat \<Rightarrow> rat \<Rightarrow> rat \<Rightarrow> rat \<Rightarrow> canvas \<Rightarrow> canvas" where
  "clearRect x y w h cv =
     (if cs_transform (cv_state cv) = [] \<and> x = 0 \<and> y = 0
         \<and> w = of_nat (cv_width cv) \<and> h = of_nat (cv_height cv)
      then cv\<lparr>cv_log := []\<rparr>
      else put (ClearRect (cs_transform (cv_state cv)) x y w h) cv)"

text \<open>
  \<^verbatim>\<open>drawImage\<close> with 3, 5 and 9 arguments. An argument that is not finite makes the
  call return without drawing; otherwise a canvas source with a zero width or height
  makes it throw \<^verbatim>\<open>InvalidStateError\<close>; otherwise a source rectangle with a zero width
  or height makes it return without drawing. The arguments of the calls with 3 and 5
  arguments are 0 and sizes of canvases in this program, which are finite.
\<close>

fun usable :: "source \<Rightarrow> bool" where
  "usable (Img d) = True"
| "usable (Surface w h l) = (w \<noteq> 0 \<and> h \<noteq> 0)"

definition drawImage3 :: "source \<Rightarrow> rat \<Rightarrow> rat \<Rightarrow> canvas \<Rightarrow> error + canvas" where
  "drawImage3 s dx dy cv =
     (if \<not> usable s then Inl InvalidStateError
      else Inr (put (DrawImage (cs_filter (cv_state cv)) (cs_transform (cv_state cv)) s
                      None dx dy None) cv))"

definition drawImage5 :: "source \<Rightarrow> rat \<Rightarrow> rat \<Rightarrow> rat \<Rightarrow> rat \<Rightarrow> canvas \<Rightarrow> error + canvas" where
  "drawImage5 s dx dy dw dh cv =
     (if \<not> usable s then Inl InvalidStateError
      else Inr (put (DrawImage (cs_filter (cv_state cv)) (cs_transform (cv_state cv)) s
                      None dx dy (Some (dw, dh))) cv))"

definition drawImage9 ::
  "source \<Rightarrow> rat \<Rightarrow> rat \<Rightarrow> rat \<Rightarrow> rat \<Rightarrow> rat \<Rightarrow> rat \<Rightarrow> rat \<Rightarrow> rat \<Rightarrow> canvas \<Rightarrow> error + canvas" where
  "drawImage9 s sx sy sw sh dx dy dw dh cv =
     (if \<not> list_all finite_double [sx, sy, sw, sh, dx, dy, dw, dh] then Inr cv
      else if \<not> usable s then Inl InvalidStateError
      else if sw = 0 \<or> sh = 0 then Inr cv
      else Inr (put (DrawImage (cs_filter (cv_state cv)) (cs_transform (cv_state cv)) s
                      (Some (sx, sy, sw, sh)) dx dy (Some (dw, dh))) cv))"

text \<open>
  \<^verbatim>\<open>ctx.filter = `brightness(b%) contrast(c%) saturate(s%)`\<close>: a negative amount is
  not a valid filter value, and an assignment of an invalid value is ignored.
\<close>

definition set_filter :: "rat \<Rightarrow> rat \<Rightarrow> rat \<Rightarrow> canvas \<Rightarrow> canvas" where
  "set_filter b c s cv =
     (if b < 0 \<or> c < 0 \<or> s < 0 then cv
      else cv\<lparr>cv_state := (cv_state cv)\<lparr>cs_filter := FTone b c s\<rparr>\<rparr>)"

definition transform :: "xform \<Rightarrow> canvas \<Rightarrow> canvas" where
  "transform t cv =
     cv\<lparr>cv_state := (cv_state cv)\<lparr>cs_transform := cs_transform (cv_state cv) @ [t]\<rparr>\<rparr>"

definition save :: "canvas \<Rightarrow> canvas" where
  "save cv = cv\<lparr>cv_stack := cv_state cv # cv_stack cv\<rparr>"

definition restore :: "canvas \<Rightarrow> canvas" where
  "restore cv =
     (case cv_stack cv of [] \<Rightarrow> cv | s # ss \<Rightarrow> cv\<lparr>cv_state := s, cv_stack := ss\<rparr>)"

text \<open>\<^verbatim>\<open>ctx.font = `${px}px Arial`\<close>: a negative size is invalid and ignored.\<close>

definition set_font :: "rat \<Rightarrow> canvas \<Rightarrow> canvas" where
  "set_font px cv =
     (if px < 0 then cv else cv\<lparr>cv_state := (cv_state cv)\<lparr>cs_font := (px, ''Arial'')\<rparr>\<rparr>)"

definition set_fillStyle :: "string \<Rightarrow> canvas \<Rightarrow> canvas" where
  "set_fillStyle c cv = cv\<lparr>cv_state := (cv_state cv)\<lparr>cs_fillStyle := c\<rparr>\<rparr>"

definition fillText :: "string \<Rightarrow> rat \<Rightarrow> rat \<Rightarrow> canvas \<Rightarrow> canvas" where
  "fillText t x y cv =
     put (FillText (cs_filter (cv_state cv)) (cs_transform (cv_state cv)) (cs_font (cv_state cv))
            (cs_fillStyle (cv_state cv)) t x y) cv"

text \<open>\<^verbatim>\<open>canvas.toDataURL(type, quality)\<close>.\<close>

definition toDataURL :: "string \<Rightarrow> rat option \<Rightarrow> canvas \<Rightarrow> image_data" where
  "toDataURL mime q cv = DataURL mime q (cv_width cv) (cv_height cv) (cv_log cv)"

definition surface :: "canvas \<Rightarrow> source" where
  "surface cv = Surface (cv_width cv) (cv_height cv) (cv_log cv)"

text \<open>
  The painter's model of the bitmap: the drawing calls paint in order, and with opaque
  paint a call that covers the point \<open>p\<close> replaces what \<open>p\<close> showed. \<open>top_draw covers l p\<close>
  is the position in \<open>l\<close> of the call that \<open>p\<close> shows in the end, for any account
  \<open>covers\<close> of which points a call paints.
\<close>

definition top_draw :: "(draw \<Rightarrow> 'p \<Rightarrow> bool) \<Rightarrow> draw list \<Rightarrow> 'p \<Rightarrow> nat option" where
  "top_draw covers l p =
     fold (\<lambda>(i, d) shown. if covers d p then Some i else shown) (enumerate 0 l) None"




subsection \<open>The editor state\<close>

record TextAnnotation =
  ta_x :: rat
  ta_y :: rat
  ta_text :: string
  ta_color :: string
  ta_fontSize :: rat
  ta_width :: "rat option"
  ta_height :: "rat option"

datatype tool = Pen | Text | Shape

record DrawSettings =
  ds_tool :: "tool option"
  ds_color :: string
  ds_size :: rat
  ds_opacity :: rat
  ds_brushType :: "string option"
  ds_shape :: "string option"

text \<open>
  \<^verbatim>\<open>Crop\<close> and \<^verbatim>\<open>PixelCrop\<close> of the cropping component have the same fields; one
  record serves for both.
\<close>

record Crop =
  c_unit :: string
  c_width :: rat
  c_height :: rat
  c_x :: rat
  c_y :: rat

record Flip =
  horizontal :: bool
  vertical :: bool

text \<open>
  The drawing overlay (\<^verbatim>\<open>drawCanvasRef\<close>) is a canvas whose context the code never
  transforms or filters: its size and the strokes on it.
\<close>

record overlay =
  dc_width :: nat
  dc_height :: nat
  dc_log :: "draw list"

record DrawingState =
  isDrawing :: bool
  lastX :: rat
  lastY :: rat

record DOMRect =
  r_left :: rat
  r_top :: rat
  r_width :: rat
  r_height :: rat

text \<open>
  \<^verbatim>\<open>imageRef\<close> is the displayed image element when it is mounted, as its \<^verbatim>\<open>width\<close>
  and \<^verbatim>\<open>height\<close> (the rendered size, whole CSS pixels). \<^verbatim>\<open>sessionStorage\<close> is the
  browser's store, which the upload page fills.
\<close>

record editor =
  imageData :: "image_data option"
  imageType :: "string option"
  brightness :: rat
  contrast :: rat
  saturation :: rat
  blur :: rat
  sharpen :: rat
  vignette :: rat
  sepia :: rat
  hue :: rat
  selectedFilter :: "string option"
  crop :: Crop
  completedCrop :: "Crop option"
  rotation :: int
  flip :: Flip
  isCropping :: bool
  fileName :: string
  isSaving :: bool
  scale :: rat
  drawSettings :: DrawSettings
  textAnnotations :: "TextAnnotation list"
  drawingState :: DrawingState
  newTextInput :: string
  isAddingText :: bool
  selectedText :: "nat option"
  activeCategory :: string
  selectedBrush :: string
  selectedShape :: string
  highlights :: rat
  shadows :: rat
  clarity :: rat
  vibrance :: rat
  imageRef :: "(nat \<times> nat) option"
  drawCanvasRef :: "overlay option"
  sessionStorage :: "string \<rightharpoonup> string"

text \<open>
  What the browser decides: whether image data decodes (then \<^verbatim>\<open>onload\<close> fires, with
  the natural size) and whether \<^verbatim>\<open>getContext('2d')\<close> returns a context, for the export
  canvas and for the canvas of the cropped region.
\<close>

record browser =
  decode :: "string \<Rightarrow> (nat \<times> nat) option"
  ctx2d :: bool
  croppedCtx2d :: bool

text \<open>A data URI is falsy when it is null or the empty string.\<close>

fun truthy :: "image_data option \<Rightarrow> bool" where
  "truthy None = False"
| "truthy (Some (Uploaded s)) = (s \<noteq> [])"
| "truthy (Some (DataURL m q w h l)) = True"

text \<open>
  The natural size with which \<^verbatim>\<open>onload\<close> fires, if it does. The data URI of a canvas
  without pixels is \<^verbatim>\<open>data:,\<close>, which does not decode.
\<close>

fun natural_size :: "browser \<Rightarrow> image_data \<Rightarrow> (nat \<times> nat) option" where
  "natural_size env (Uploaded s) = decode env s"
| "natural_size env (DataURL m q w h l) = (if w = 0 \<or> h = 0 then None else Some (w, h))"

text \<open>The values of the \<^verbatim>\<open>useState\<close> initialisers.\<close>

definition defaultCrop :: Crop where
  "defaultCrop = \<lparr>c_unit = ''%'', c_width = 90, c_height = 90, c_x = 5, c_y = 5\<rparr>"

definition initial :: "(string \<rightharpoonup> string) \<Rightarrow> editor" where
  "initial store =
     \<lparr>imageData = None, imageType = None,
      brightness = 100, contrast = 100, saturation = 100,
      blur = 0, sharpen = 0, vignette = 0, sepia = 0, hue = 0,
      selectedFilter = None,
      crop = defaultCrop, completedCrop = None,
      rotation = 0, flip = \<lparr>horizontal = False, vertical = False\<rparr>,
      isCropping = False, fileName = ''edited-image.jpg'', isSaving = False, scale = 1,
      drawSettings = \<lparr>ds_tool = None, ds_color = ''#000000'', ds_size = 5, ds_opacity = 100,
                       ds_brushType = None, ds_shape = None\<rparr>,
      textAnnotations = [],
      drawingState = \<lparr>isDrawing = False, lastX = 0, lastY = 0\<rparr>,
      newTextInput = [], isAddingText = False, selectedText = None,
      activeCategory = ''quick'', selectedBrush = ''pencil'', selectedShape = ''rectangle'',
      highlights = 0, shadows = 0, clarity = 0, vibrance = 0,
      imageRef = None, drawCanvasRef = None, sessionStorage = store\<rparr>"

subsection \<open>Loading the session\<close>

text \<open>
  The mount effect reads the two entries of the session store. When one is missing or
  empty it redirects to the upload page (the flag of the result); otherwise it sets the
  image data, the image type and the file name
  \<^verbatim>\<open>`edited-image.${storedImageType.split('/')[1] || 'jpg'}`\<close>.
\<close>

definition extension :: "string \<Rightarrow> string" where
  "extension t =
     (case index (split CHR ''/'' t) 1 of
        None \<Rightarrow> ''jpg''
      | Some e \<Rightarrow> if e = [] then ''jpg'' else e)"

definition loadSession :: "editor \<Rightarrow> editor \<times> bool" where
  "loadSession st =
     (case (sessionStorage st ''editImageData'', sessionStorage st ''editImageType'') of
        (Some d, Some t) \<Rightarrow>
          if d = [] \<or> t = [] then (st, True)
          else (st\<lparr>imageData := Some (Uploaded d), imageType := Some t,
                   fileName := ''edited-image.'' @ extension t\<rparr>, False)
      | _ \<Rightarrow> (st, True))"

subsection \<open>Reset\<close>

text \<open>
  \<^verbatim>\<open>handleReset\<close>. Its \<^verbatim>\<open>clearRect\<close> covers the whole overlay canvas, when that is
  mounted, and leaves no stroke on it. The working image is read back from the session
  store when the entry is there and not empty.
\<close>

definition handleReset :: "editor \<Rightarrow> editor" where
  "handleReset st =
     st\<lparr>brightness := 100, contrast := 100, saturation := 100,
        blur := 0, sharpen := 0, vignette := 0, sepia := 0, hue := 0,
        selectedFilter := None,
        rotation := 0, flip := \<lparr>horizontal = False, vertical = False\<rparr>,
        crop := \<lparr>c_unit = ''%'', c_width = 90, c_height = 90, c_x = 5, c_y = 5\<rparr>,
        completedCrop := None, scale := 1, isCropping := False,
        highlights := 0, shadows := 0, clarity := 0, vibrance := 0,
        drawSettings := \<lparr>ds_tool = None, ds_color = ''#000000'', ds_size = 5, ds_opacity = 100,
                          ds_brushType = Some ''pencil'', ds_shape = Some ''rectangle''\<rparr>,
        selectedBrush := ''pencil'', selectedShape := ''rectangle'',
        textAnnotations := [], newTextInput := [], isAddingText := False, selectedText := None,
        drawCanvasRef :=
          (case drawCanvasRef st of None \<Rightarrow> None | Some dc \<Rightarrow> Some (dc\<lparr>dc_log := []\<rparr>)),
        imageData :=
          (case sessionStorage st ''editImageData'' of
             None \<Rightarrow> imageData st
           | Some originalImage \<Rightarrow>
               if originalImage = [] then imageData st else Some (Uploaded originalImage)),
        activeCategory := ''quick''\<rparr>"

subsection \<open>Rotation and flips\<close>

text \<open>\<^verbatim>\<open>handleRotate\<close>: \<^verbatim>\<open>setRotation((prev) => (prev + degrees) % 360)\<close>.\<close>

definition handleRotate :: "int \<Rightarrow> editor \<Rightarrow> editor" where
  "handleRotate degrees st = st\<lparr>rotation := js_rem (rotation st + degrees) 360\<rparr>"

definition flipHorizontal :: "editor \<Rightarrow> editor" where
  "flipHorizontal st = st\<lparr>flip := (flip st)\<lparr>horizontal := \<not> horizontal (flip st)\<rparr>\<rparr>"

definition flipVertical :: "editor \<Rightarrow> editor" where
  "flipVertical st = st\<lparr>flip := (flip st)\<lparr>vertical := \<not> vertical (flip st)\<rparr>\<rparr>"

subsection \<open>The crop sub-flow\<close>

text \<open>
  The crop button starts cropping, or calls \<^verbatim>\<open>finishCrop\<close> when cropping is on. While
  cropping, the cropping component reports the rectangle (\<^verbatim>\<open>onChange\<close>) and the
  completed rectangle (\<^verbatim>\<open>onComplete\<close>), and the zoom slider sets the scale.
\<close>

definition startCrop :: "editor \<Rightarrow> editor" where
  "startCrop st = st\<lparr>isCropping := True\<rparr>"

definition cropChange :: "Crop \<Rightarrow> editor \<Rightarrow> editor" where
  "cropChange c st = st\<lparr>crop := c\<rparr>"

definition cropComplete :: "Crop \<Rightarrow> editor \<Rightarrow> editor" where
  "cropComplete c st = st\<lparr>completedCrop := Some c\<rparr>"

definition setZoom :: "rat \<Rightarrow> editor \<Rightarrow> editor" where
  "setZoom v st = st\<lparr>scale := js_div v 100\<rparr>"

definition mimeType :: "editor \<Rightarrow> string" where
  "mimeType st =
     (case imageType st of
        None \<Rightarrow> ''image/jpeg''
      | Some t \<Rightarrow> if t = [] then ''image/jpeg'' else t)"

text \<open>
  The canvas that \<^verbatim>\<open>finishCrop\<close> draws once the working image has loaded. With a
  zero scale the quotients are not finite: both sizes convert to 0 and
  \<^verbatim>\<open>drawImage\<close> ignores the call.
\<close>

definition cropCanvas :: "editor \<Rightarrow> Crop \<Rightarrow> image_data \<Rightarrow> canvas" where
  "cropCanvas st c d =
     (let sx = js_div (c_x c) (scale st);
          sy = js_div (c_y c) (scale st);
          sw = js_div (c_width c) (scale st);
          sh = js_div (c_height c) (scale st);
          cv = set_height sh (set_width sw createCanvas)
      in case drawImage9 (Img d) sx sy sw sh 0 0 sw sh cv of
           Inl e \<Rightarrow> cv
         | Inr cv' \<Rightarrow> cv')"

text \<open>
  \<^verbatim>\<open>finishCrop\<close>. When the working image does not decode, \<^verbatim>\<open>onload\<close> never fires,
  and when there is no context it returns at once: the state stays as it is.
\<close>

definition finishCrop :: "browser \<Rightarrow> editor \<Rightarrow> editor" where
  "finishCrop env st =
     (case completedCrop st of
        Some c \<Rightarrow>
          if truthy (imageData st) then
            (case natural_size env (the (imageData st)) of
               None \<Rightarrow> st
             | Some n \<Rightarrow>
                 if \<not> ctx2d env then st
                 else
                   st\<lparr>imageData :=
                        Some (toDataURL (mimeType st) None (cropCanvas st c (the (imageData st)))),
                      isCropping := False, completedCrop := None, scale := 1\<rparr>)
          else st\<lparr>isCropping := False, scale := 1\<rparr>
      | None \<Rightarrow> st\<lparr>isCropping := False, scale := 1\<rparr>)"

definition cropButton :: "browser \<Rightarrow> editor \<Rightarrow> editor" where
  "cropButton env st = (if isCropping st then finishCrop env st else startCrop st)"

datatype crop_state = Idle | Cropping

definition crop_state :: "editor \<Rightarrow> crop_state" where
  "crop_state st = (if isCropping st then Cropping else Idle)"

subsection \<open>Text annotations\<close>

text \<open>The text tool button and the text input.\<close>

definition textTool :: "editor \<Rightarrow> editor" where
  "textTool st = st\<lparr>drawSettings := (drawSettings st)\<lparr>ds_tool := Some Text\<rparr>, isAddingText := True\<rparr>"

definition typeText :: "string \<Rightarrow> editor \<Rightarrow> editor" where
  "typeText t st = st\<lparr>newTextInput := t\<rparr>"

text \<open>
  The click handler of the text overlay, which is mounted while \<^verbatim>\<open>isAddingText\<close> holds
  and the editor is not cropping; \<open>r\<close> is the overlay's bounding rectangle.
\<close>

definition textOverlayClick :: "rat \<Rightarrow> rat \<Rightarrow> DOMRect \<Rightarrow> editor \<Rightarrow> editor" where
  "textOverlayClick clientX clientY r st =
     (let x = clientX - r_left r;
          y = clientY - r_top r
      in if 0 \<le> x \<and> x \<le> r_width r \<and> 0 \<le> y \<and> y \<le> r_height r then
           (if newTextInput st \<noteq> [] then
              st\<lparr>textAnnotations :=
                   textAnnotations st @
                     [\<lparr>ta_x = x, ta_y = y, ta_text = newTextInput st,
                       ta_color = ds_color (drawSettings st),
                       ta_fontSize = ds_size (drawSettings st) * 2,
                       ta_width = None, ta_height = None\<rparr>],
                 newTextInput := [],
                 isAddingText := False,
                 drawSettings := (drawSettings st)\<lparr>ds_tool := None\<rparr>\<rparr>
            else st)
         else st)"

text \<open>\<^verbatim>\<open>handleTextMove\<close>: \<^verbatim>\<open>prev.map\<close> over the annotations with their positions.\<close>

fun mapi :: "(nat \<Rightarrow> 'a \<Rightarrow> 'b) \<Rightarrow> nat \<Rightarrow> 'a list \<Rightarrow> 'b list" where
  "mapi f i [] = []"
| "mapi f i (v # vs) = f i v # mapi f (Suc i) vs"

definition handleTextMove :: "nat \<Rightarrow> rat \<Rightarrow> rat \<Rightarrow> editor \<Rightarrow> editor" where
  "handleTextMove idx x y st =
     st\<lparr>textAnnotations :=
          mapi (\<lambda>i annotation. if i = idx then annotation\<lparr>ta_x := x, ta_y := y\<rparr> else annotation)
            0 (textAnnotations st)\<rparr>"

subsection \<open>The pen\<close>

text \<open>
  The mouse handlers of the overlay canvas, which is displayed while the pen is the
  tool; \<open>r\<close> is its bounding rectangle. With a rectangle of zero width or height the
  scaled coordinates are not finite, and every comparison with them is false.
\<close>

definition penTool :: "editor \<Rightarrow> editor" where
  "penTool st = st\<lparr>drawSettings := (drawSettings st)\<lparr>ds_tool := Some Pen\<rparr>\<rparr>"

definition penDown :: "rat \<Rightarrow> rat \<Rightarrow> DOMRect \<Rightarrow> editor \<Rightarrow> editor" where
  "penDown clientX clientY r st =
     (case drawCanvasRef st of
        None \<Rightarrow> st
      | Some dc \<Rightarrow>
          if r_width r = 0 \<or> r_height r = 0 then st
          else
            let scaleX = of_nat (dc_width dc) / r_width r;
                scaleY = of_nat (dc_height dc) / r_height r;
                x = (clientX - r_left r) * scaleX;
                y = (clientY - r_top r) * scaleY
            in if 0 \<le> x \<and> x \<le> of_nat (dc_width dc) \<and> 0 \<le> y \<and> y \<le> of_nat (dc_height dc) then
                 st\<lparr>drawingState := \<lparr>isDrawing = True, lastX = x, lastY = y\<rparr>,
                    drawCanvasRef :=
                      (if ds_tool (drawSettings st) = Some Pen
                       then Some (dc\<lparr>dc_log := dc_log dc @ [MoveTo x y]\<rparr>)
                       else Some dc)\<rparr>
               else st)"

definition penMove :: "rat \<Rightarrow> rat \<Rightarrow> DOMRect \<Rightarrow> editor \<Rightarrow> editor" where
  "penMove clientX clientY r st =
     (if \<not> isDrawing (drawingState st) \<or> ds_tool (drawSettings st) \<noteq> Some Pen then st
      else
        case drawCanvasRef st of
          None \<Rightarrow> st
        | Some dc \<Rightarrow>
            if r_width r = 0 \<or> r_height r = 0 then st
            else
              let scaleX = of_nat (dc_width dc) / r_width r;
                  scaleY = of_nat (dc_height dc) / r_height r;
                  x = (clientX - r_left r) * scaleX;
                  y = (clientY - r_top r) * scaleY
              in if 0 \<le> x \<and> x \<le> of_nat (dc_width dc) \<and> 0 \<le> y \<and> y \<le> of_nat (dc_height dc) then
                   st\<lparr>drawCanvasRef :=
                        Some (dc\<lparr>dc_log := dc_log dc @
                                [StrokeTo (ds_color (drawSettings st)) (ds_size (drawSettings st))
                                   (ds_opacity (drawSettings st) / 100) x y]\<rparr>),
                      drawingState := (drawingState st)\<lparr>lastX := x, lastY := y\<rparr>\<rparr>
                 else st)"

definition stopDrawing :: "editor \<Rightarrow> editor" where
  "stopDrawing st = st\<lparr>drawingState := (drawingState st)\<lparr>isDrawing := False\<rparr>\<rparr>"

subsection \<open>Export\<close>

text \<open>
  The rotation and flip transformation about the centre of the canvas, which
  \<^verbatim>\<open>handleSave\<close> applies when \<^verbatim>\<open>rotation !== 0 || flip.horizontal || flip.vertical\<close>.
\<close>

definition transformed :: "editor \<Rightarrow> bool" where
  "transformed st = (rotation st \<noteq> 0 \<or> horizontal (flip st) \<or> vertical (flip st))"

definition geometry :: "editor \<Rightarrow> canvas \<Rightarrow> canvas" where
  "geometry st cv =
     (let centerX = of_nat (cv_width cv) / 2;
          centerY = of_nat (cv_height cv) / 2
      in transform (Translate (- centerX) (- centerY))
           (transform (Scale (if horizontal (flip st) then - 1 else 1)
                             (if vertical (flip st) then - 1 else 1))
              (transform (Rotate (rotation st))
                 (transform (Translate centerX centerY) cv))))"

datatype abort = NoContext | Threw error

text \<open>
  Sizing the canvas to the natural size, the first draw of the image, the assignment
  of the filter, and the second draw under the transformation.
\<close>

definition drawBase :: "editor \<Rightarrow> image_data \<Rightarrow> nat \<Rightarrow> nat \<Rightarrow> abort + canvas" where
  "drawBase st d naturalWidth naturalHeight =
     (let cv = set_height (of_nat naturalHeight) (set_width (of_nat naturalWidth) createCanvas);
          cv = clearRect 0 0 (of_nat (cv_width cv)) (of_nat (cv_height cv)) cv
      in case drawImage5 (Img d) 0 0 (of_nat (cv_width cv)) (of_nat (cv_height cv)) cv of
           Inl e \<Rightarrow> Inl (Threw e)
         | Inr cv \<Rightarrow>
             let cv = set_filter (brightness st) (contrast st) (saturation st) cv
             in if transformed st then
                  (case drawImage5 (Img d) 0 0 (of_nat (cv_width cv)) (of_nat (cv_height cv))
                          (geometry st cv) of
                     Inl e \<Rightarrow> Inl (Threw e)
                   | Inr cv \<Rightarrow> Inr cv)
                else Inr cv)"

text \<open>
  The crop step, taken when \<^verbatim>\<open>completedCrop\<close> is not null. \<^verbatim>\<open>scaledCrop\<close> is
  \<^verbatim>\<open>(completedCrop.x / 100) * canvas.width\<close> and so on: a quotient of doubles, then a
  product of doubles.
\<close>

definition scaledCrop :: "Crop \<Rightarrow> canvas \<Rightarrow> rat \<times> rat \<times> rat \<times> rat" where
  "scaledCrop c cv =
     (js_mul (js_div (c_x c) 100) (of_nat (cv_width cv)),
      js_mul (js_div (c_y c) 100) (of_nat (cv_height cv)),
      js_mul (js_div (c_width c) 100) (of_nat (cv_width cv)),
      js_mul (js_div (c_height c) 100) (of_nat (cv_height cv)))"

definition applyCrop :: "browser \<Rightarrow> Crop \<Rightarrow> canvas \<Rightarrow> abort + canvas" where
  "applyCrop env c cv =
     (if \<not> croppedCtx2d env then Inl NoContext
      else
        case scaledCrop c cv of (sx, sy, sw, sh) \<Rightarrow>
          (let croppedCanvas = set_height sh (set_width sw createCanvas)
           in (case drawImage9 (surface cv) sx sy sw sh 0 0 sw sh croppedCanvas of
                 Inl e \<Rightarrow> Inl (Threw e)
               | Inr croppedCanvas \<Rightarrow>
                   (let cv = set_height (of_nat (cv_height croppedCanvas))
                               (set_width (of_nat (cv_width croppedCanvas)) cv)
                    in (case drawImage3 (surface croppedCanvas) 0 0 cv of
                          Inl e \<Rightarrow> Inl (Threw e)
                        | Inr cv \<Rightarrow> Inr cv)))))"

text \<open>The drawing overlay, when it is mounted.\<close>

definition drawOverlay :: "editor \<Rightarrow> canvas \<Rightarrow> abort + canvas" where
  "drawOverlay st cv =
     (case drawCanvasRef st of
        None \<Rightarrow> Inr cv
      | Some drawCanvas \<Rightarrow>
          (let cv = save cv;
               cv = (if transformed st then geometry st cv else cv)
           in (case drawImage5
                     (Surface (dc_width drawCanvas) (dc_height drawCanvas) (dc_log drawCanvas))
                     0 0 (of_nat (cv_width cv)) (of_nat (cv_height cv)) cv of
                 Inl e \<Rightarrow> Inl (Threw e)
               | Inr cv \<Rightarrow> Inr (restore cv))))"

text \<open>
  One text annotation. Reading \<^verbatim>\<open>imageRef.current!.width\<close> throws \<^verbatim>\<open>TypeError\<close>
  when the image element is not mounted. When its width or height is 0 a scale factor
  is not finite, and \<^verbatim>\<open>fillText\<close> ignores a call with a coordinate that is not finite.
\<close>

definition drawTextAnnotation :: "editor \<Rightarrow> TextAnnotation \<Rightarrow> canvas \<Rightarrow> abort + canvas" where
  "drawTextAnnotation st annotation cv =
     (let cv = save cv;
          cv = (if transformed st then geometry st cv else cv)
      in case imageRef st of
           None \<Rightarrow> Inl (Threw TypeError)
         | Some (iw, ih) \<Rightarrow>
             if iw = 0 \<or> ih = 0 then Inr (restore (set_fillStyle (ta_color annotation) cv))
             else
               let scaleX = of_nat (cv_width cv) / of_nat iw;
                   scaleY = of_nat (cv_height cv) / of_nat ih;
                   cv = set_font (ta_fontSize annotation * min scaleX scaleY) cv;
                   cv = set_fillStyle (ta_color annotation) cv;
                   cv = fillText (ta_text annotation)
                          (ta_x annotation * scaleX) (ta_y annotation * scaleY) cv
               in Inr (restore cv))"

text \<open>\<^verbatim>\<open>textAnnotations.forEach\<close>: in the order of the array, until a call throws.\<close>

fun drawTexts :: "editor \<Rightarrow> TextAnnotation list \<Rightarrow> canvas \<Rightarrow> abort + canvas" where
  "drawTexts st [] cv = Inr cv"
| "drawTexts st (annotation # rest) cv =
     (case drawTextAnnotation st annotation cv of
        Inl e \<Rightarrow> Inl e
      | Inr cv \<Rightarrow> drawTexts st rest cv)"

text \<open>
  The body of \<^verbatim>\<open>img.onload\<close> up to the download link: the steps before the text
  annotations (\<open>prepare\<close>), then the text annotations.
\<close>

definition prepare :: "browser \<Rightarrow> editor \<Rightarrow> image_data \<Rightarrow> nat \<Rightarrow> nat \<Rightarrow> abort + canvas" where
  "prepare env st d naturalWidth naturalHeight =
     (case drawBase st d naturalWidth naturalHeight of
        Inl e \<Rightarrow> Inl e
      | Inr cv \<Rightarrow>
          (case (case completedCrop st of None \<Rightarrow> Inr cv | Some c \<Rightarrow> applyCrop env c cv) of
             Inl e \<Rightarrow> Inl e
           | Inr cv \<Rightarrow> drawOverlay st cv))"

definition flatten :: "browser \<Rightarrow> editor \<Rightarrow> image_data \<Rightarrow> nat \<Rightarrow> nat \<Rightarrow> abort + canvas" where
  "flatten env st d naturalWidth naturalHeight =
     (case prepare env st d naturalWidth naturalHeight of
        Inl e \<Rightarrow> Inl e
      | Inr cv \<Rightarrow> drawTexts st (textAnnotations st) cv)"

text \<open>
  \<^verbatim>\<open>handleSave\<close> returns the new state and what came of the export: nothing at all
  (\<open>NoOp\<close>), a load that never completes (\<open>Pending\<close>), an early return or an exception
  (\<open>Aborted\<close>), or the download of a file under a name. The timer that it starts on
  success clears \<^verbatim>\<open>isSaving\<close> a second later (\<open>saveTimeout\<close>).
\<close>

datatype outcome = NoOp | Pending | Aborted abort | Download string image_data

definition handleSave :: "browser \<Rightarrow> editor \<Rightarrow> editor \<times> outcome" where
  "handleSave env st =
     (if \<not> truthy (imageData st) then (st, NoOp)
      else if \<not> ctx2d env then (st\<lparr>isSaving := True\<rparr>, Aborted NoContext)
      else
        case natural_size env (the (imageData st)) of
          None \<Rightarrow> (st\<lparr>isSaving := True\<rparr>, Pending)
        | Some (naturalWidth, naturalHeight) \<Rightarrow>
            (case flatten env st (the (imageData st)) naturalWidth naturalHeight of
               Inl e \<Rightarrow> (st\<lparr>isSaving := True\<rparr>, Aborted e)
             | Inr cv \<Rightarrow>
                 (st\<lparr>isSaving := True\<rparr>,
                  Download (fileName st) (toDataURL (mimeType st) (Some 1) cv))))"

definition saveTimeout :: "editor \<Rightarrow> editor" where
  "saveTimeout st = st\<lparr>isSaving := False\<rparr>"


fun exportLog :: "outcome \<Rightarrow> draw list" where
  "exportLog (Download name (DataURL m q w h l)) = l"
| "exportLog other = []"

definition overlayStrokes :: "editor \<Rightarrow> draw list" where
  "overlayStrokes st = (case drawCanvasRef st of None \<Rightarrow> [] | Some dc \<Rightarrow> dc_log dc)"

subsection \<open>Mounting and the load of the working image\<close>

text \<open>
  The page renders nothing without image data and type; while cropping it renders the
  cropping component; otherwise it renders the image element (which \<^verbatim>\<open>imageRef\<close> then
  holds, at the size \<open>layout\<close> that the page layout gives it) and the overlay canvas
  (which \<^verbatim>\<open>drawCanvasRef\<close> then holds, a new canvas when it was not mounted before).
\<close>

definition render :: "nat \<times> nat \<Rightarrow> editor \<Rightarrow> editor" where
  "render layout st =
     (if \<not> truthy (imageData st) \<or> imageType st = None \<or> imageType st = Some [] \<or> isCropping st
      then st\<lparr>imageRef := None, drawCanvasRef := None\<rparr>
      else st\<lparr>imageRef := Some layout,
              drawCanvasRef :=
                (case drawCanvasRef st of
                   None \<Rightarrow> Some \<lparr>dc_width = 300, dc_height = 150, dc_log = []\<rparr>
                 | Some dc \<Rightarrow> Some dc)\<rparr>)"

text \<open>
  The effect on \<^verbatim>\<open>imageData\<close>: when the working image has loaded, the overlay canvas,
  if mounted, takes the natural size and is cleared.
\<close>

definition imageLoaded :: "browser \<Rightarrow> editor \<Rightarrow> editor" where
  "imageLoaded env st =
     (if \<not> truthy (imageData st) then st
      else
        case natural_size env (the (imageData st)) of
          None \<Rightarrow> st
        | Some (naturalWidth, naturalHeight) \<Rightarrow>
            (case drawCanvasRef st of
               None \<Rightarrow> st
             | Some dc \<Rightarrow>
                 st\<lparr>drawCanvasRef :=
                      Some \<lparr>dc_width = canvas_dim 300 (of_nat naturalWidth),
                            dc_height = canvas_dim 150 (of_nat naturalHeight),
                            dc_log = []\<rparr>\<rparr>))"

subsection \<open>Sessions\<close>

text \<open>
  The events of an editing session and the handler each one runs. The cropping
  component is mounted only while cropping, the text overlay only while text is being
  added outside cropping, and the overlay canvas is displayed only while the pen is the
  tool; their events do nothing otherwise.
\<close>

datatype event =
    Reset
  | RotateBy int
  | FlipHorizontal
  | FlipVertical
  | CropButton
  | CropChange Crop
  | CropComplete Crop
  | Zoom rat
  | SetBrightness rat
  | SetContrast rat
  | SetSaturation rat
  | PenTool
  | PenDown rat rat DOMRect
  | PenMove rat rat DOMRect
  | PenUp
  | TextTool
  | TypeText string
  | ClickOverlay rat rat DOMRect
  | MoveText nat rat rat
  | Save
  | SaveTimeout
  | Render "nat \<times> nat"
  | ImageLoaded

fun step :: "browser \<Rightarrow> event \<Rightarrow> editor \<Rightarrow> editor" where
  "step env Reset st = handleReset st"
| "step env (RotateBy d) st = handleRotate d st"
| "step env FlipHorizontal st = flipHorizontal st"
| "step env FlipVertical st = flipVertical st"
| "step env CropButton st = cropButton env st"
| "step env (CropChange c) st = (if isCropping st then cropChange c st else st)"
| "step env (CropComplete c) st = (if isCropping st then cropComplete c st else st)"
| "step env (Zoom v) st = (if isCropping st then setZoom v st else st)"
| "step env (SetBrightness v) st = st\<lparr>brightness := v\<rparr>"
| "step env (SetContrast v) st = st\<lparr>contrast := v\<rparr>"
| "step env (SetSaturation v) st = st\<lparr>saturation := v\<rparr>"
| "step env PenTool st = penTool st"
| "step env (PenDown cx cy r) st =
     (if ds_tool (drawSettings st) = Some Pen then penDown cx cy r st else st)"
| "step env (PenMove cx cy r) st =
     (if ds_tool (drawSettings st) = Some Pen then penMove cx cy r st else st)"
| "step env PenUp st =
     (if ds_tool (drawSettings st) = Some Pen then stopDrawing st else st)"
| "step env TextTool st = textTool st"
| "step env (TypeText t) st = typeText t st"
| "step env (ClickOverlay cx cy r) st =
     (if isAddingText st \<and> \<not> isCropping st then textOverlayClick cx cy r st else st)"
| "step env (MoveText i x y) st = handleTextMove i x y st"
| "step env Save st = fst (handleSave env st)"
| "step env SaveTimeout st = saveTimeout st"
| "step env (Render layout) st = render layout st"
| "step env ImageLoaded st = imageLoaded env st"

definition run :: "browser \<Rightarrow> event list \<Rightarrow> editor \<Rightarrow> editor" where
  "run env evs st = fold (step env) evs st"

subsection \<open>Example sessions\<close>

text \<open>
  A browser that decodes three images: one of 100 by 100 pixels, one of 200 by 100 and
  one of 3 by 3. \<open>session d layout\<close> is the editor after the upload page has stored the
  image \<open>d\<close> with the type \<^verbatim>\<open>image/png\<close>, the editor has loaded it, rendered it at the
  size \<open>layout\<close> and sized the overlay.
\<close>

definition demoBrowser :: browser where
  "demoBrowser =
     \<lparr>decode = map_of [(''data:red'', (100, 100)), (''data:wide'', (200, 100)),
                        (''data:tiny'', (3, 3))],
      ctx2d = True, croppedCtx2d = True\<rparr>"

definition demoStore :: "string \<Rightarrow> (string \<rightharpoonup> string)" where
  "demoStore d = map_of [(''editImageData'', d), (''editImageType'', ''image/png'')]"

definition session :: "string \<Rightarrow> nat \<times> nat \<Rightarrow> editor" where
  "session d layout =
     run demoBrowser [Render layout, ImageLoaded] (fst (loadSession (initial (demoStore d))))"


definition bandCrop :: Crop where
  "bandCrop = \<lparr>c_unit = ''px'', c_width = 50, c_height = 100, c_x = 25, c_y = 0\<rparr>"



definition overlayRect :: DOMRect where
  "overlayRect = \<lparr>r_left = 10, r_top = 20, r_width = 100, r_height = 50\<rparr>"

text \<open>
  \<open>brightSession\<close>: the 100 by 100 image with the brightness at 120.
  \<open>croppingSession d c\<close>: the image \<open>d\<close>, cropping started and the rectangle \<open>c\<close>
  completed, not yet applied. \<open>committedSession\<close>: the 200 by 100 image after the
  rectangle \<open>bandCrop\<close> has been applied with the crop button.
  \<open>textSession\<close>: the 100 by 100 image displayed at 100 by
  50 with two text annotations. \<open>turnedSession\<close>: the same image rotated by 90 degrees,
  with the first of these annotations. \<open>busySession\<close>: the 200 by 100 image darkened,
  rotated, cropped, drawn on and annotated.
\<close>

definition brightSession :: editor where
  "brightSession = step demoBrowser (SetBrightness 120) (session ''data:red'' (100, 100))"

definition croppingSession :: "string \<Rightarrow> Crop \<Rightarrow> editor" where
  "croppingSession d c =
     run demoBrowser [CropButton, Render (0, 0), CropChange c, CropComplete c]
       (session d (100, 50))"



definition textSession :: editor where
  "textSession =
     run demoBrowser
       [TextTool, TypeText ''first'', ClickOverlay 30 45 overlayRect,
        TextTool, TypeText ''second'', ClickOverlay 40 45 overlayRect]
       (session ''data:red'' (100, 50))"

definition busySession :: editor where
  "busySession =
     run demoBrowser
       [SetBrightness 30, RotateBy 90,
        CropButton, Render (0, 0), CropChange bandCrop, CropComplete bandCrop, CropButton,
        Render (50, 50), ImageLoaded,
        PenTool, PenDown 30 45 overlayRect, PenMove 40 45 overlayRect, PenUp,
        TextTool, TypeText ''first'', ClickOverlay 30 45 overlayRect]
       (session ''data:wide'' (100, 50))"

section \<open>Properties\<close>

lemmas canvas_defs =
  createCanvas_def default_ctx_def set_width_def set_height_def put_def clearRect_def
  drawImage3_def drawImage5_def drawImage9_def set_filter_def transform_def save_def
  restore_def set_font_def set_fillStyle_def fillText_def toDataURL_def surface_def
  canvas_dim_def js_trunc_def

lemmas export_defs =
  handleSave_def flatten_def prepare_def drawBase_def applyCrop_def scaledCrop_def
  drawOverlay_def drawTextAnnotation_def transformed_def geometry_def mimeType_def

lemmas handler_defs =
  initial_def defaultCrop_def loadSession_def extension_def handleReset_def handleRotate_def
  js_rem_def flipHorizontal_def flipVertical_def startCrop_def cropChange_def cropComplete_def
  setZoom_def cropCanvas_def finishCrop_def cropButton_def textTool_def
  typeText_def textOverlayClick_def handleTextMove_def saveTimeout_def run_def render_def
  imageLoaded_def penTool_def penDown_def penMove_def stopDrawing_def

lemmas demo_defs =
  demoBrowser_def demoStore_def session_def overlayRect_def

subsection \<open>Double precision\<close>

lemma rne_of_int: "rne (of_int i) = i"
  by (simp add: rne_def)



lemma bitlen_eqI:
  assumes "2 ^ n \<le> x" "x < 2 ^ Suc n"
  shows "bitlen x = int (Suc n)"
proof -
  have "bitlen x \<le> int (Suc n)"
    unfolding bitlen_le_iff_power nat_int using assms(2) by simp
  moreover have "int (Suc n) \<le> bitlen x"
    unfolding bitlen_ge_iff_power nat_int using assms(1) by simp
  ultimately show ?thesis by simp
qed

lemma round_binary_mantissa:
  assumes lo: "2 ^ (p - 1) \<le> \<bar>q\<bar> * 2 ^ s" and hi: "\<bar>q\<bar> * 2 ^ s < 2 ^ p"
    and s: "s \<le> e" and p: "0 < p"
  shows "round_binary p e q = sgn q * of_int (rne (\<bar>q\<bar> * 2 ^ s)) / 2 ^ s"
proof -
  obtain d where e: "e = s + d" using s by (metis le_Suc_ex)
  obtain p' where p': "p = Suc p'" using p by (cases p) auto
  let ?m = "\<bar>q\<bar> * 2 ^ s"
  let ?a = "\<bar>q\<bar> * 2 ^ e"
  have a: "?a = ?m * 2 ^ d" by (simp add: e power_add)
  have "2 ^ p' * 2 ^ d \<le> ?m * (2 ^ d :: rat)"
    using lo by (simp add: p')
  then have alo: "(2::rat) ^ (p' + d) \<le> ?a" by (simp add: a power_add)
  have "?m * 2 ^ d < 2 ^ p * (2 ^ d :: rat)"
    using hi by simp
  then have ahi: "?a < (2::rat) ^ Suc (p' + d)" by (simp add: a power_add p')
  have flo: "(2::int) ^ (p' + d) \<le> \<lfloor>?a\<rfloor>"
    using alo by (simp add: le_floor_iff)
  have fhi: "\<lfloor>?a\<rfloor> < (2::int) ^ Suc (p' + d)"
    using ahi by (simp add: floor_less_iff)
  have "bitlen \<lfloor>?a\<rfloor> = int (Suc (p' + d))" by (rule bitlen_eqI [OF flo fhi])
  then have k: "nat (bitlen \<lfloor>?a\<rfloor> - int p) = d" by (simp add: p')
  have q: "?a / 2 ^ d = ?m" by (simp add: a)
  show ?thesis
    unfolding round_binary_def Let_def k q
    by (simp add: e power_add)
qed

lemma round_binary_zero: "round_binary p e 0 = 0"
  by (simp add: round_binary_def)



lemma round_binary_exact:
  assumes "\<bar>i\<bar> < 2 ^ p" "s \<le> e"
  shows "round_binary p e (of_int i / 2 ^ s) = of_int i / 2 ^ s"
proof (cases "i = 0")
  case True
  then show ?thesis by (simp add: round_binary_zero)
next
  case False
  then have ip: "0 < \<bar>i\<bar>" by simp
  obtain d where e: "e = s + d" using assms(2) by (metis le_Suc_ex)
  define q :: rat where "q = of_int i / 2 ^ s"
  define a where "a = \<bar>q\<bar> * 2 ^ e"
  define k where "k = nat (bitlen \<lfloor>a\<rfloor> - int p)"
  have a: "a = of_int (\<bar>i\<bar> * 2 ^ d)" by (simp add: a_def q_def e power_add)
  have fl: "\<lfloor>a\<rfloor> = \<bar>i\<bar> * 2 ^ d" unfolding a by (rule floor_of_int)
  have bl: "bitlen \<lfloor>a\<rfloor> = bitlen \<bar>i\<bar> + int d" unfolding fl using ip by (rule bitlen_pow2)
  have "bitlen \<bar>i\<bar> \<le> int p" unfolding bitlen_le_iff_power nat_int using assms(1) by simp
  then have "k \<le> d" unfolding k_def bl by simp
  then obtain c where d: "d = k + c" by (metis le_Suc_ex)
  have "a / 2 ^ k = of_int (\<bar>i\<bar> * 2 ^ c)"
    unfolding a by (simp add: d power_add)
  then have r: "rne (a / 2 ^ k) = \<bar>i\<bar> * 2 ^ c" by (simp only: rne_of_int)
  have "of_int (rne (a / 2 ^ k)) * 2 ^ k / 2 ^ e = (of_int \<bar>i\<bar> / 2 ^ s :: rat)"
    unfolding r by (simp add: e d power_add)
  moreover have "round_binary p e q = sgn q * (of_int (rne (a / 2 ^ k)) * 2 ^ k / 2 ^ e)"
    by (simp add: round_binary_def Let_def a_def k_def)
  ultimately have "round_binary p e q = sgn q * (of_int \<bar>i\<bar> / 2 ^ s)" by simp
  also have "\<dots> = q" by (simp add: q_def sgn_if zero_less_divide_iff)
  finally show ?thesis by (simp add: q_def)
qed

lemma floor_rat_numeral: "\<lfloor>numeral a / numeral b :: rat\<rfloor> = numeral a div numeral b"
  by (metis floor_divide_of_int_eq of_int_numeral)

lemma finite_double_small [simp]: "\<bar>q\<bar> < 9007199254740992 \<Longrightarrow> finite_double q"
proof -
  assume "\<bar>q\<bar> < 9007199254740992"
  then have "\<bar>q\<bar> < 2 ^ 53" by simp
  also have "(2::rat) ^ 53 \<le> 2 ^ 1024" by (rule power_increasing) simp_all
  finally show ?thesis by (simp only: finite_double_def)
qed

lemma finite_double_of_nat: "n \<le> 2147483647 \<Longrightarrow> finite_double (of_nat n)"
proof (rule finite_double_small)
  assume "n \<le> 2147483647"
  then have "(of_nat n :: rat) \<le> of_nat 2147483647" by (simp only: of_nat_le_iff)
  then show "\<bar>of_nat n :: rat\<bar> < 9007199254740992" by simp
qed

lemma not_finite_double [simp]: "\<not> finite_double not_finite"
  by (simp add: finite_double_def not_finite_def)

lemma round_double_int: "\<bar>i\<bar> < 9007199254740992 \<Longrightarrow> round_double (of_int i) = of_int i"
  using round_binary_exact [of i 53 0 1074] by (simp add: round_double_def)

lemma round_double_numeral [simp]:
  "numeral n < (9007199254740992::int) \<Longrightarrow> round_double (numeral n) = numeral n"
  using round_double_int [of "numeral n"] by simp

lemma round_double_zero [simp]: "round_double 0 = 0"
  by (simp add: round_double_def round_binary_zero)

lemma round_double_one [simp]: "round_double 1 = 1"
  using round_double_int [of 1] by simp


lemma js_div_one [simp]: "js_div q 1 = round_double q"
  by (simp add: js_div_def)






text \<open>
  At a zoom of 110 percent the scale is the double nearest to 1.1, and a rectangle 110
  wide is cut out 99 pixels wide: \<open>110 / 1.1\<close> is \<open>99.99999999999999\<close> in doubles.
\<close>

lemma js_div_110: "js_div 110 100 = 2476979795053773 / 2251799813685248"
  using round_binary_mantissa [of 53 "110 / 100" 52 1074]
  by (simp add: js_div_def round_double_def rne_def Let_def floor_rat_numeral)

lemma js_div_zoom:
  "js_div 110 (2476979795053773 / 2251799813685248) = 7036874417766399 / 70368744177664"
  using round_binary_mantissa [of 53 "110 / (2476979795053773 / 2251799813685248)" 46 1074]
  by (simp add: js_div_def round_double_def rne_def Let_def floor_rat_numeral)

lemma cropCanvas_zoom:
  "cv_width (cropCanvas (setZoom 110 st)
      \<lparr>c_unit = ''px'', c_width = 110, c_height = 110, c_x = 0, c_y = 0\<rparr> d) = 99"
  by (simp add: cropCanvas_def setZoom_def Let_def drawImage9_def set_width_def set_height_def
        createCanvas_def put_def canvas_dim_def js_trunc_def js_div_110 js_div_zoom
        floor_rat_numeral)

subsection \<open>Rotation\<close>

lemma js_rem_cong: "js_rem a 360 mod 360 = a mod 360"
proof (cases "0 \<le> a")
  case True
  then show ?thesis by (cases "a = 0") (simp_all add: js_rem_def)
next
  case False
  then have "js_rem a 360 = - ((- a) mod 360)" by (simp add: js_rem_def)
  then show ?thesis by (simp add: mod_minus_eq)
qed

lemma js_rem_range: "- 360 < js_rem a 360 \<and> js_rem a 360 < 360"
proof (cases "0 \<le> a")
  case True
  then show ?thesis by (cases "a = 0") (simp_all add: js_rem_def)
next
  case False
  then have e: "js_rem a 360 = - ((- a) mod 360)" by (simp add: js_rem_def)
  have "0 \<le> (- a) mod 360" "(- a) mod 360 < 360" by simp_all
  with e show ?thesis by linarith
qed

lemma rotation_handleRotate: "rotation (handleRotate d st) = js_rem (rotation st + d) 360"
  by (simp add: handleRotate_def)

lemma fold_rotate_cong:
  "rotation (fold handleRotate ds st) mod 360 = (rotation st + sum_list ds) mod 360"
proof (induction ds arbitrary: st)
  case Nil
  then show ?case by simp
next
  case (Cons d ds)
  have "rotation (fold handleRotate (d # ds) st) mod 360
          = (rotation (handleRotate d st) + sum_list ds) mod 360"
    using Cons.IH [of "handleRotate d st"] by simp
  also have "\<dots> = (js_rem (rotation st + d) 360 mod 360 + sum_list ds) mod 360"
    by (simp add: rotation_handleRotate mod_add_left_eq)
  also have "\<dots> = (rotation st + sum_list (d # ds)) mod 360"
    by (simp add: js_rem_cong mod_add_left_eq add.assoc)
  finally show ?case .
qed

lemma fold_rotate_range:
  "ds \<noteq> [] \<Longrightarrow>
   - 360 < rotation (fold handleRotate ds st) \<and> rotation (fold handleRotate ds st) < 360"
proof (induction ds arbitrary: st rule: rev_induct)
  case Nil
  then show ?case by simp
next
  case (snoc d ds)
  show ?case using js_rem_range [of "rotation (fold handleRotate ds st) + d"]
    by (simp add: rotation_handleRotate)
qed

text \<open>
  C3, as the code has it. After the rotate operations with deltas \<open>ds\<close> (at least one),
  the stored angle is congruent modulo 360 to the initial angle plus the sum of the
  deltas, and it lies strictly between \<open>-360\<close> and \<open>360\<close>: the remainder keeps the sign
  of the dividend, so the angle is not confined to \<open>[0, 360)\<close>.
\<close>

theorem rotate_normalized:
  assumes "ds \<noteq> []"
  shows "rotation (fold handleRotate ds st) mod 360 = (rotation st + sum_list ds) mod 360
    \<and> - 360 < rotation (fold handleRotate ds st) \<and> rotation (fold handleRotate ds st) < 360"
  using assms fold_rotate_cong fold_rotate_range by blast

theorem rotate_normalized_witness:
  "[- 90] \<noteq> ([] :: int list)
   \<and> rotation (fold handleRotate [- 90] (initial (map_of []))) mod 360 = 270
   \<and> rotation (fold handleRotate [- 90] (initial (map_of []))) = - 90"
  using rotate_normalized [of "[- 90]" "initial (map_of [])"]
  by (simp add: handleRotate_def initial_def js_rem_def)

text \<open>
  C3 as stated fails: one rotation by \<open>-90\<close> from the initial angle 0 stores \<open>-90\<close>,
  which is not in \<open>[0, 360)\<close>.
\<close>

theorem rotate_range_counterexample:
  "\<not> (0 \<le> rotation (fold handleRotate [- 90] (initial (map_of [])))
      \<and> rotation (fold handleRotate [- 90] (initial (map_of []))) < 360)"
  by (simp add: handleRotate_def initial_def js_rem_def)

subsection \<open>Export without an image\<close>

text \<open>
  C8. When no image is loaded (the image data is null, or the empty string, which
  \<^verbatim>\<open>!imageData\<close> treats alike), \<^verbatim>\<open>handleSave\<close> returns at once: the state is the
  one it was called in, and nothing is produced or downloaded.
\<close>

theorem save_without_image:
  assumes "\<not> truthy (imageData st)"
  shows "handleSave env st = (st, NoOp)"
  using assms by (simp add: handleSave_def)

theorem save_without_image_witness:
  "imageData (initial (map_of [])) = None
   \<and> handleSave \<lparr>decode = map_of [], ctx2d = True, croppedCtx2d = True\<rparr> (initial (map_of []))
       = (initial (map_of []), NoOp)"
  using save_without_image [of "initial (map_of [])" "\<lparr>decode = map_of [], ctx2d = True, croppedCtx2d = True\<rparr>"]
  by (simp add: initial_def)

subsection \<open>Placing text\<close>

text \<open>
  C10. The click handler of the text overlay, which is mounted while text is being
  placed. With an empty pending input the click changes nothing. With a non-empty input
  and a click inside the overlay's rectangle it appends exactly one annotation, at the
  click's coordinates relative to the rectangle, with the current colour, the pending
  text and a font size that is twice the current draw size; it clears the pending
  input, leaves text placement and sets the tool to none.
\<close>

theorem text_click:
  "(newTextInput st = [] \<longrightarrow> textOverlayClick clientX clientY r st = st)
   \<and> (newTextInput st \<noteq> []
        \<and> 0 \<le> clientX - r_left r \<and> clientX - r_left r \<le> r_width r
        \<and> 0 \<le> clientY - r_top r \<and> clientY - r_top r \<le> r_height r \<longrightarrow>
       textOverlayClick clientX clientY r st =
         st\<lparr>textAnnotations :=
              textAnnotations st @
                [\<lparr>ta_x = clientX - r_left r, ta_y = clientY - r_top r,
                  ta_text = newTextInput st,
                  ta_color = ds_color (drawSettings st),
                  ta_fontSize = 2 * ds_size (drawSettings st),
                  ta_width = None, ta_height = None\<rparr>],
            newTextInput := [],
            isAddingText := False,
            drawSettings := (drawSettings st)\<lparr>ds_tool := None\<rparr>\<rparr>
       \<and> length (textAnnotations (textOverlayClick clientX clientY r st))
           = Suc (length (textAnnotations st)))"
  by (simp add: textOverlayClick_def Let_def mult.commute)

theorem text_click_witness:
  "newTextInput (textTool (initial (map_of []))) = []
   \<and> textOverlayClick 30 45 \<lparr>r_left = 10, r_top = 20, r_width = 100, r_height = 50\<rparr>
        (textTool (initial (map_of []))) = textTool (initial (map_of []))
   \<and> newTextInput (typeText ''hi'' (textTool (initial (map_of [])))) \<noteq> []
   \<and> textAnnotations
        (textOverlayClick 30 45 \<lparr>r_left = 10, r_top = 20, r_width = 100, r_height = 50\<rparr>
          (typeText ''hi'' (textTool (initial (map_of [])))))
       = [\<lparr>ta_x = 20, ta_y = 25, ta_text = ''hi'', ta_color = ''#000000'', ta_fontSize = 10,
            ta_width = None, ta_height = None\<rparr>]
   \<and> newTextInput
        (textOverlayClick 30 45 \<lparr>r_left = 10, r_top = 20, r_width = 100, r_height = 50\<rparr>
          (typeText ''hi'' (textTool (initial (map_of []))))) = []
   \<and> isAddingText
        (textOverlayClick 30 45 \<lparr>r_left = 10, r_top = 20, r_width = 100, r_height = 50\<rparr>
          (typeText ''hi'' (textTool (initial (map_of []))))) = False
   \<and> ds_tool (drawSettings
        (textOverlayClick 30 45 \<lparr>r_left = 10, r_top = 20, r_width = 100, r_height = 50\<rparr>
          (typeText ''hi'' (textTool (initial (map_of [])))))) = None"
  using text_click [of "textTool (initial (map_of []))" 30 45
          "\<lparr>r_left = 10, r_top = 20, r_width = 100, r_height = 50\<rparr>"]
        text_click [of "typeText ''hi'' (textTool (initial (map_of [])))" 30 45
          "\<lparr>r_left = 10, r_top = 20, r_width = 100, r_height = 50\<rparr>"]
  by (simp add: typeText_def textTool_def initial_def)

subsection \<open>Reset\<close>

text \<open>
  C7. From any state, \<^verbatim>\<open>handleReset\<close> sets brightness, contrast and saturation to 100,
  every other slider to 0 and the preset to none; the rotation to 0, both flips off,
  the crop rectangle to the 90 percent centred default with no completed crop, cropping
  off and the zoom to 1; the text annotations to the empty list and the overlay to one
  without strokes; and, the session store holding the source bytes, the working image
  to those bytes. Resetting twice is resetting once.
\<close>

theorem reset_defaults:
  "brightness (handleReset st) = 100 \<and> contrast (handleReset st) = 100
   \<and> saturation (handleReset st) = 100
   \<and> blur (handleReset st) = 0 \<and> sharpen (handleReset st) = 0 \<and> vignette (handleReset st) = 0
   \<and> sepia (handleReset st) = 0 \<and> hue (handleReset st) = 0
   \<and> highlights (handleReset st) = 0 \<and> shadows (handleReset st) = 0
   \<and> clarity (handleReset st) = 0 \<and> vibrance (handleReset st) = 0
   \<and> selectedFilter (handleReset st) = None
   \<and> rotation (handleReset st) = 0
   \<and> flip (handleReset st) = \<lparr>horizontal = False, vertical = False\<rparr>
   \<and> crop (handleReset st) = defaultCrop \<and> completedCrop (handleReset st) = None
   \<and> isCropping (handleReset st) = False \<and> scale (handleReset st) = 1
   \<and> textAnnotations (handleReset st) = []
   \<and> overlayStrokes (handleReset st) = []
   \<and> (sessionStorage st ''editImageData'' = Some sourceBytes \<and> sourceBytes \<noteq> [] \<longrightarrow>
        imageData (handleReset st) = Some (Uploaded sourceBytes))
   \<and> handleReset (handleReset st) = handleReset st"
  by (cases "drawCanvasRef st")
     (simp_all add: handleReset_def defaultCrop_def overlayStrokes_def split: option.splits)

theorem reset_defaults_witness:
  "sessionStorage busySession ''editImageData'' = Some ''data:wide''
   \<and> brightness busySession = 30 \<and> rotation busySession = 90
   \<and> overlayStrokes busySession = [MoveTo 10 50, StrokeTo ''#000000'' 5 1 15 50]
   \<and> length (textAnnotations busySession) = 1
   \<and> imageData busySession \<noteq> Some (Uploaded ''data:wide'')
   \<and> imageData (handleReset busySession) = Some (Uploaded ''data:wide'')
   \<and> brightness (handleReset busySession) = 100 \<and> rotation (handleReset busySession) = 0
   \<and> crop (handleReset busySession) = defaultCrop
   \<and> overlayStrokes (handleReset busySession) = []
   \<and> textAnnotations (handleReset busySession) = []
   \<and> handleReset (handleReset busySession) = handleReset busySession"
  using reset_defaults [of busySession "''data:wide''"]
  by (simp add: demo_defs busySession_def bandCrop_def overlayStrokes_def handler_defs
        canvas_defs mimeType_def)

subsection \<open>The name of the download\<close>

lemma split_nonempty: "split sep s \<noteq> []"
  by (induction s) auto

lemma split_no_sep: "sep \<notin> set s \<Longrightarrow> split sep s = [s]"
  by (induction s) auto

lemma hd_split: "hd (split sep s) = takeWhile (\<lambda>c. c \<noteq> sep) s"
  by (induction s) auto

lemma takeWhile_no_sep: "sep \<notin> set s \<Longrightarrow> takeWhile (\<lambda>c. c \<noteq> sep) s = s"
  by (induction s) auto

lemma split_first: "sep \<notin> set ty \<Longrightarrow> split sep (ty @ sep # rest) = ty # split sep rest"
  by (induction ty) auto

lemma index_hd: "xs \<noteq> [] \<Longrightarrow> index xs 0 = Some (hd xs)"
  by (cases xs) auto

lemma extension_no_slash: "CHR ''/'' \<notin> set t \<Longrightarrow> extension t = ''jpg''"
  by (simp add: extension_def split_no_sep)

lemma extension_slash:
  assumes "CHR ''/'' \<notin> set ty"
  shows "extension (ty @ CHR ''/'' # rest) =
    (if takeWhile (\<lambda>c. c \<noteq> CHR ''/'') rest = [] then ''jpg''
     else takeWhile (\<lambda>c. c \<noteq> CHR ''/'') rest)"
proof -
  have "index (split CHR ''/'' (ty @ CHR ''/'' # rest)) 1
          = Some (takeWhile (\<lambda>c. c \<noteq> CHR ''/'') rest)"
    using assms by (simp add: split_first index_hd split_nonempty hd_split)
  then show ?thesis by (simp add: extension_def)
qed

lemma fileName_handleSave: "fileName (fst (handleSave env st)) = fileName st"
  by (simp add: handleSave_def split: option.splits sum.splits prod.splits)

lemma fileName_finishCrop: "fileName (finishCrop env st) = fileName st"
  by (simp add: finishCrop_def split: option.splits)

lemma fileName_step: "fileName (step env ev st) = fileName st"
  by (cases ev)
     (simp_all add: handleReset_def handleRotate_def flipHorizontal_def flipVertical_def
        cropButton_def startCrop_def fileName_finishCrop cropChange_def cropComplete_def
        setZoom_def textTool_def typeText_def textOverlayClick_def Let_def handleTextMove_def
        fileName_handleSave saveTimeout_def render_def imageLoaded_def
        penTool_def penDown_def penMove_def stopDrawing_def
        split: option.splits)

lemma fileName_run: "fileName (run env evs st) = fileName st"
  unfolding run_def by (induction evs arbitrary: st) (simp_all add: fileName_step)

lemma download_name:
  "snd (handleSave env st) = Download name url \<Longrightarrow> name = fileName st"
  by (auto simp add: handleSave_def split: if_splits option.splits sum.splits prod.splits)

lemma loadSession_fileName:
  assumes "sessionStorage st ''editImageData'' = Some d" "d \<noteq> []"
    and "sessionStorage st ''editImageType'' = Some t" "t \<noteq> []"
  shows "loadSession st = (st\<lparr>imageData := Some (Uploaded d), imageType := Some t,
                   fileName := ''edited-image.'' @ extension t\<rparr>, False)"
  using assms by (simp add: loadSession_def)
text \<open>
  C9. In a session loaded with the MIME type \<open>t\<close>, whatever the editor has done since,
  a download is named \<^verbatim>\<open>edited-image.\<close> followed by the extension of \<open>t\<close>. The
  extension is \<^verbatim>\<open>jpg\<close> when \<open>t\<close> has no slash; otherwise it is what follows the first
  slash, up to a second slash if there is one, or \<^verbatim>\<open>jpg\<close> when that is empty. For a type
  with one slash it is the subtype, or \<^verbatim>\<open>jpg\<close> when the subtype is empty.
\<close>

theorem export_file_name:
  assumes "sessionStorage st ''editImageData'' = Some d" "d \<noteq> []"
    and "sessionStorage st ''editImageType'' = Some t" "t \<noteq> []"
    and "snd (handleSave env (run env evs (fst (loadSession st)))) = Download name url"
  shows "name = ''edited-image.'' @ extension t
    \<and> (CHR ''/'' \<notin> set t \<longrightarrow> extension t = ''jpg'')
    \<and> (\<forall>ty rest. t = ty @ CHR ''/'' # rest \<and> CHR ''/'' \<notin> set ty \<longrightarrow>
          extension t =
            (if takeWhile (\<lambda>c. c \<noteq> CHR ''/'') rest = [] then ''jpg''
             else takeWhile (\<lambda>c. c \<noteq> CHR ''/'') rest))
    \<and> (\<forall>ty sub. t = ty @ CHR ''/'' # sub \<and> CHR ''/'' \<notin> set ty \<and> CHR ''/'' \<notin> set sub \<longrightarrow>
          extension t = (if sub = [] then ''jpg'' else sub))"
proof -
  have "name = fileName (run env evs (fst (loadSession st)))"
    using assms(5) by (rule download_name)
  then have "name = ''edited-image.'' @ extension t"
    by (simp add: fileName_run loadSession_fileName [OF assms(1-4)])
  moreover have "\<forall>ty sub. t = ty @ CHR ''/'' # sub \<and> CHR ''/'' \<notin> set ty \<and> CHR ''/'' \<notin> set sub \<longrightarrow>
          extension t = (if sub = [] then ''jpg'' else sub)"
    by (auto simp add: extension_slash takeWhile_no_sep)
  ultimately show ?thesis
    by (simp add: extension_no_slash extension_slash)
qed

theorem export_file_name_witness:
  "sessionStorage (initial (demoStore ''data:wide'')) ''editImageData'' = Some ''data:wide''
   \<and> sessionStorage (initial (demoStore ''data:wide'')) ''editImageType'' = Some ''image/png''
   \<and> snd (handleSave demoBrowser
          (run demoBrowser [RotateBy 90, Reset] (fst (loadSession (initial (demoStore ''data:wide''))))))
       = Download ''edited-image.png''
           (DataURL ''image/png'' (Some 1) 200 100
              [DrawImage FNone [] (Img (Uploaded ''data:wide'')) None 0 0 (Some (200, 100))])
   \<and> extension ''image/png'' = ''png''"
  using export_file_name [of "initial (demoStore ''data:wide'')" "''data:wide''" "''image/png''"
      demoBrowser "[RotateBy 90, Reset]" "''edited-image.png''"
      "DataURL ''image/png'' (Some 1) 200 100
              [DrawImage FNone [] (Img (Uploaded ''data:wide'')) None 0 0 (Some (200, 100))]"]
  by (simp add: demo_defs handler_defs canvas_defs export_defs)

subsection \<open>The crop sub-flow\<close>

text \<open>
  C4, as the code has it. The crop button takes \<open>Idle\<close> to \<open>Cropping\<close> and leaves the
  working image alone. In \<open>Cropping\<close> with a completed rectangle, once the working image
  has loaded, it replaces the working image with the cropped result, clears the
  completed rectangle, sets the zoom to 1 and returns to \<open>Idle\<close>; the crop rectangle
  stays as the user left it. In \<open>Cropping\<close> without a completed rectangle it returns to
  \<open>Idle\<close> with the zoom at 1 and the working image unchanged.
\<close>

theorem crop_subflow:
  "(crop_state st = Idle \<longrightarrow>
      crop_state (cropButton env st) = Cropping
      \<and> imageData (cropButton env st) = imageData st)
   \<and> (crop_state st = Cropping \<and> completedCrop st = Some c \<and> imageData st = Some d
        \<and> truthy (Some d) \<and> natural_size env d = Some n \<and> ctx2d env \<longrightarrow>
      cropButton env st =
        st\<lparr>imageData := Some (toDataURL (mimeType st) None (cropCanvas st c d)),
           isCropping := False, completedCrop := None, scale := 1\<rparr>
      \<and> crop_state (cropButton env st) = Idle
      \<and> crop (cropButton env st) = crop st)
   \<and> (crop_state st = Cropping \<and> completedCrop st = None \<longrightarrow>
      cropButton env st = st\<lparr>isCropping := False, scale := 1\<rparr>
      \<and> crop_state (cropButton env st) = Idle
      \<and> imageData (cropButton env st) = imageData st)"
  by (simp add: crop_state_def cropButton_def startCrop_def finishCrop_def split: if_splits)

theorem crop_subflow_witness:
  "crop_state (session ''data:wide'' (100, 50)) = Idle
   \<and> crop_state (cropButton demoBrowser (session ''data:wide'' (100, 50))) = Cropping
   \<and> crop_state (croppingSession ''data:wide'' bandCrop) = Cropping
   \<and> completedCrop (croppingSession ''data:wide'' bandCrop) = Some bandCrop
   \<and> imageData (croppingSession ''data:wide'' bandCrop) = Some (Uploaded ''data:wide'')
   \<and> natural_size demoBrowser (Uploaded ''data:wide'') = Some (200, 100)
   \<and> imageData (cropButton demoBrowser (croppingSession ''data:wide'' bandCrop)) =
        Some (DataURL ''image/png'' None 50 100
                [DrawImage FNone [] (Img (Uploaded ''data:wide'')) (Some (25, 0, 50, 100)) 0 0
                   (Some (50, 100))])
   \<and> crop_state (cropButton demoBrowser (croppingSession ''data:wide'' bandCrop)) = Idle
   \<and> crop (cropButton demoBrowser (croppingSession ''data:wide'' bandCrop)) = bandCrop
   \<and> crop_state (startCrop (session ''data:wide'' (100, 50))) = Cropping
   \<and> completedCrop (startCrop (session ''data:wide'' (100, 50))) = None
   \<and> crop_state (cropButton demoBrowser (startCrop (session ''data:wide'' (100, 50)))) = Idle
   \<and> imageData (cropButton demoBrowser (startCrop (session ''data:wide'' (100, 50))))
        = Some (Uploaded ''data:wide'')"
  using crop_subflow [of "session ''data:wide'' (100, 50)" demoBrowser]
    crop_subflow [of "croppingSession ''data:wide'' bandCrop" demoBrowser bandCrop
      "Uploaded ''data:wide''" "(200, 100)"]
    crop_subflow [of "startCrop (session ''data:wide'' (100, 50))" demoBrowser]
  by (simp add: demo_defs croppingSession_def bandCrop_def crop_state_def handler_defs
        canvas_defs mimeType_def)

text \<open>
  C4 as stated fails where it says that committing resets the crop rectangle to its
  default: after the commit of the rectangle \<open>bandCrop\<close> the editor is \<open>Idle\<close> and the crop
  rectangle is still \<open>bandCrop\<close>.
\<close>

theorem crop_commit_counterexample:
  "crop_state (cropButton demoBrowser (croppingSession ''data:wide'' bandCrop)) = Idle
   \<and> crop (cropButton demoBrowser (croppingSession ''data:wide'' bandCrop)) \<noteq> defaultCrop"
  by (simp add: demo_defs croppingSession_def bandCrop_def crop_state_def handler_defs
        canvas_defs mimeType_def)

subsection \<open>The export pipeline\<close>

lemma geometry_eq:
  "geometry st cv =
     cv\<lparr>cv_state := (cv_state cv)\<lparr>cs_transform := cs_transform (cv_state cv) @
        [Translate (of_nat (cv_width cv) / 2) (of_nat (cv_height cv) / 2),
         Rotate (rotation st),
         Scale (if horizontal (flip st) then - 1 else 1) (if vertical (flip st) then - 1 else 1),
         Translate (- (of_nat (cv_width cv) / 2)) (- (of_nat (cv_height cv) / 2))]\<rparr>\<rparr>"
  by (simp add: geometry_def transform_def Let_def)

lemma drawTextAnnotation_adds:
  assumes "imageRef st = Some (iw, ih)" "iw \<noteq> 0" "ih \<noteq> 0"
  shows "drawTextAnnotation st a cv =
    Inr (cv\<lparr>cv_log := cv_log cv @
      [FillText (cs_filter (cv_state cv))
         (cs_transform (cv_state cv) @
            (if transformed st then
               [Translate (of_nat (cv_width cv) / 2) (of_nat (cv_height cv) / 2),
                Rotate (rotation st),
                Scale (if horizontal (flip st) then - 1 else 1)
                      (if vertical (flip st) then - 1 else 1),
                Translate (- (of_nat (cv_width cv) / 2)) (- (of_nat (cv_height cv) / 2))]
             else []))
         (if 0 \<le> ta_fontSize a * min (of_nat (cv_width cv) / of_nat iw) (of_nat (cv_height cv) / of_nat ih)
          then (ta_fontSize a * min (of_nat (cv_width cv) / of_nat iw) (of_nat (cv_height cv) / of_nat ih), ''Arial'')
          else cs_font (cv_state cv))
         (ta_color a) (ta_text a)
         (ta_x a * (of_nat (cv_width cv) / of_nat iw))
         (ta_y a * (of_nat (cv_height cv) / of_nat ih))]\<rparr>)"
  using assms
  by (simp add: drawTextAnnotation_def Let_def save_def restore_def geometry_eq
      set_font_def set_fillStyle_def fillText_def put_def not_le)

lemma drawTexts_fold:
  assumes "\<And>cv a. drawTextAnnotation st a cv =
     Inr (cv\<lparr>cv_log := cv_log cv @ [g (cv_width cv) (cv_height cv) (cv_state cv) a]\<rparr>)"
  shows "drawTexts st as cv =
     Inr (cv\<lparr>cv_log := cv_log cv @ map (g (cv_width cv) (cv_height cv) (cv_state cv)) as\<rparr>)"
  by (induction as arbitrary: cv) (simp_all add: assms)

lemma drawTexts_adds:
  assumes "imageRef st = Some (iw, ih)" "iw \<noteq> 0" "ih \<noteq> 0"
  shows "drawTexts st as cv =
    Inr (cv\<lparr>cv_log := cv_log cv @
      map (\<lambda>a. FillText (cs_filter (cv_state cv))
         (cs_transform (cv_state cv) @
            (if transformed st then
               [Translate (of_nat (cv_width cv) / 2) (of_nat (cv_height cv) / 2),
                Rotate (rotation st),
                Scale (if horizontal (flip st) then - 1 else 1)
                      (if vertical (flip st) then - 1 else 1),
                Translate (- (of_nat (cv_width cv) / 2)) (- (of_nat (cv_height cv) / 2))]
             else []))
         (if 0 \<le> ta_fontSize a * min (of_nat (cv_width cv) / of_nat iw) (of_nat (cv_height cv) / of_nat ih)
          then (ta_fontSize a * min (of_nat (cv_width cv) / of_nat iw) (of_nat (cv_height cv) / of_nat ih), ''Arial'')
          else cs_font (cv_state cv))
         (ta_color a) (ta_text a)
         (ta_x a * (of_nat (cv_width cv) / of_nat iw))
         (ta_y a * (of_nat (cv_height cv) / of_nat ih))) as\<rparr>)"
  by (rule drawTexts_fold [where g = "\<lambda>w h s a. FillText (cs_filter s)
         (cs_transform s @
            (if transformed st then
               [Translate (of_nat w / 2) (of_nat h / 2),
                Rotate (rotation st),
                Scale (if horizontal (flip st) then - 1 else 1)
                      (if vertical (flip st) then - 1 else 1),
                Translate (- (of_nat w / 2)) (- (of_nat h / 2))]
             else []))
         (if 0 \<le> ta_fontSize a * min (of_nat w / of_nat iw) (of_nat h / of_nat ih)
          then (ta_fontSize a * min (of_nat w / of_nat iw) (of_nat h / of_nat ih), ''Arial'')
          else cs_font s)
         (ta_color a) (ta_text a)
         (ta_x a * (of_nat w / of_nat iw))
         (ta_y a * (of_nat h / of_nat ih))"])
     (rule drawTextAnnotation_adds [OF assms])

lemma handleSave_prepared:
  assumes "imageData st = Some d" "truthy (Some d)" "ctx2d env"
    and "natural_size env d = Some (nw, nh)"
    and "prepare env st d nw nh = Inr cv"
    and "drawTexts st (textAnnotations st) cv = Inr cv'"
  shows "handleSave env st =
    (st\<lparr>isSaving := True\<rparr>,
     Download (fileName st) (DataURL (mimeType st) (Some 1) (cv_width cv') (cv_height cv') (cv_log cv')))"
  using assms by (simp add: handleSave_def flatten_def toDataURL_def)

lemma js_trunc_of_nat: "js_trunc (of_nat n) = int n"
  by (simp add: js_trunc_def)

lemma canvas_dim_of_nat: "n \<le> 2147483647 \<Longrightarrow> canvas_dim dflt (of_nat n) = n"
  by (simp add: canvas_dim_def js_trunc_of_nat Let_def finite_double_of_nat)




lemma drawBase_eq:
  assumes "W \<le> 2147483647" "H \<le> 2147483647"
  shows "\<exists>cv. drawBase st d W H = Inr cv \<and> cv_width cv = W \<and> cv_height cv = H
     \<and> cv_stack cv = []
     \<and> cs_filter (cv_state cv) =
          (if brightness st < 0 \<or> contrast st < 0 \<or> saturation st < 0 then FNone
           else FTone (brightness st) (contrast st) (saturation st))
     \<and> cs_transform (cv_state cv) =
          (if transformed st then
             [Translate (of_nat W / 2) (of_nat H / 2), Rotate (rotation st),
              Scale (if horizontal (flip st) then - 1 else 1) (if vertical (flip st) then - 1 else 1),
              Translate (- (of_nat W / 2)) (- (of_nat H / 2))]
           else [])
     \<and> cv_log cv =
          DrawImage FNone [] (Img d) None 0 0 (Some (of_nat W, of_nat H)) #
          (if transformed st then
             [DrawImage (cs_filter (cv_state cv)) (cs_transform (cv_state cv)) (Img d) None 0 0
                (Some (of_nat W, of_nat H))]
           else [])"
  using assms
  by (simp add: drawBase_def Let_def set_width_def set_height_def createCanvas_def
      canvas_dim_of_nat clearRect_def default_ctx_def drawImage5_def put_def set_filter_def
      geometry_eq)

lemma drawOverlay_eq:
  "drawOverlay st cv =
     (case drawCanvasRef st of
        None \<Rightarrow> Inr cv
      | Some dc \<Rightarrow>
          if dc_width dc = 0 \<or> dc_height dc = 0 then Inl (Threw InvalidStateError)
          else Inr (cv\<lparr>cv_log := cv_log cv @
                 [DrawImage (cs_filter (cv_state cv))
                    (cs_transform (cv_state cv) @
                       (if transformed st then
                          [Translate (of_nat (cv_width cv) / 2) (of_nat (cv_height cv) / 2),
                           Rotate (rotation st),
                           Scale (if horizontal (flip st) then - 1 else 1)
                                 (if vertical (flip st) then - 1 else 1),
                           Translate (- (of_nat (cv_width cv) / 2)) (- (of_nat (cv_height cv) / 2))]
                        else []))
                    (Surface (dc_width dc) (dc_height dc) (dc_log dc)) None 0 0
                    (Some (of_nat (cv_width cv), of_nat (cv_height cv)))]\<rparr>))"
  by (simp add: drawOverlay_def Let_def save_def restore_def geometry_eq drawImage5_def put_def
      split: option.splits)








lemma top_draw_snoc:
  "top_draw covers (l @ [d]) p = (if covers d p then Some (length l) else top_draw covers l p)"
  by (simp add: top_draw_def enumerate_append_eq)

lemma top_draw_above:
  "j < length l \<Longrightarrow> covers (l ! j) p \<Longrightarrow>
   \<exists>k. top_draw covers l p = Some k \<and> j \<le> k \<and> k < length l \<and> covers (l ! k) p"
proof (induction l rule: rev_induct)
  case Nil
  then show ?case by simp
next
  case (snoc d l)
  show ?case
  proof (cases "covers d p")
    case True
    with snoc.prems show ?thesis by (simp add: top_draw_snoc)
  next
    case False
    with snoc.prems have "j < length l"
      by (cases "j = length l") auto
    with snoc.prems snoc.IH False show ?thesis
      by (auto simp add: top_draw_snoc nth_append)
  qed
qed

lemma textOverlayClick_appends:
  "take (length (textAnnotations st)) (textAnnotations (textOverlayClick cx cy r st))
     = textAnnotations st"
  by (simp add: textOverlayClick_def Let_def)
text \<open>The example sessions, evaluated.\<close>

lemma textSession_state:
  "imageData textSession = Some (Uploaded ''data:red'')
   \<and> imageRef textSession = Some (100, 50)
   \<and> fileName textSession = ''edited-image.png''
   \<and> mimeType textSession = ''image/png''
   \<and> \<not> transformed textSession
   \<and> textAnnotations textSession =
        [\<lparr>ta_x = 20, ta_y = 25, ta_text = ''first'', ta_color = ''#000000'', ta_fontSize = 10,
           ta_width = None, ta_height = None\<rparr>,
         \<lparr>ta_x = 30, ta_y = 25, ta_text = ''second'', ta_color = ''#000000'', ta_fontSize = 10,
           ta_width = None, ta_height = None\<rparr>]"
  by (simp add: demo_defs textSession_def handler_defs canvas_defs mimeType_def
        transformed_def)

lemma textSession_prepare:
  "prepare demoBrowser textSession (Uploaded ''data:red'') 100 100 =
        Inr \<lparr>cv_width = 100, cv_height = 100,
             cv_state = \<lparr>cs_filter = FTone 100 100 100, cs_transform = [],
                          cs_fillStyle = ''#000000'', cs_font = (10, ''sans-serif'')\<rparr>,
             cv_stack = [],
             cv_log = [DrawImage FNone [] (Img (Uploaded ''data:red'')) None 0 0 (Some (100, 100)),
                       DrawImage (FTone 100 100 100) [] (Surface 100 100 []) None 0 0
                         (Some (100, 100))]\<rparr>"
  by (simp add: demo_defs textSession_def handler_defs canvas_defs export_defs)

lemma demoBrowser_decode:
  "decode demoBrowser ''data:red'' = Some (100, 100)
   \<and> decode demoBrowser ''data:wide'' = Some (200, 100)
   \<and> decode demoBrowser ''data:tiny'' = Some (3, 3)
   \<and> ctx2d demoBrowser \<and> croppedCtx2d demoBrowser"
  by (simp add: demoBrowser_def)

lemma top_draw_all:
  "top_draw (\<lambda>d p. True) [a, b, c, d] () = Some 3"
  by (simp add: top_draw_def)

text \<open>
  C1, what the code does. With any brightness, contrast and saturation (brightness 120,
  contrast 100 and saturation 100 among them), no rotation, flip, crop or text, and an
  overlay without strokes, the export of a \<open>W\<close> by \<open>H\<close> image is a \<open>W\<close> by \<open>H\<close>
  raster. Its only draw of the source image is made before the filter is assigned, with
  no filter; the tone filter reaches only the draw of the empty overlay.
\<close>

theorem export_draws_image_unfiltered:
  assumes "imageData st = Some d" "truthy (Some d)" "ctx2d env"
    and "natural_size env d = Some (W, H)" "W \<le> 2147483647" "H \<le> 2147483647"
    and "0 \<le> brightness st" "0 \<le> contrast st" "0 \<le> saturation st"
    and "rotation st = 0" "\<not> horizontal (flip st)" "\<not> vertical (flip st)"
    and "completedCrop st = None" "textAnnotations st = []"
    and "drawCanvasRef st = Some \<lparr>dc_width = W, dc_height = H, dc_log = []\<rparr>" "W \<noteq> 0" "H \<noteq> 0"
  shows "handleSave env st =
    (st\<lparr>isSaving := True\<rparr>,
     Download (fileName st)
       (DataURL (mimeType st) (Some 1) W H
          [DrawImage FNone [] (Img d) None 0 0 (Some (of_nat W, of_nat H)),
           DrawImage (FTone (brightness st) (contrast st) (saturation st)) [] (Surface W H [])
             None 0 0 (Some (of_nat W, of_nat H))]))"
proof -
  have t: "\<not> transformed st" using assms by (simp add: transformed_def)
  obtain cv where cv: "drawBase st d W H = Inr cv" "cv_width cv = W" "cv_height cv = H"
    "cs_filter (cv_state cv) = FTone (brightness st) (contrast st) (saturation st)"
    "cs_transform (cv_state cv) = []"
    "cv_log cv = [DrawImage FNone [] (Img d) None 0 0 (Some (of_nat W, of_nat H))]"
    using drawBase_eq [OF assms(5,6), of st d] t assms(7-9) by auto
  have "prepare env st d W H =
      Inr (cv\<lparr>cv_log := cv_log cv @
        [DrawImage (FTone (brightness st) (contrast st) (saturation st)) [] (Surface W H [])
           None 0 0 (Some (of_nat W, of_nat H))]\<rparr>)"
    using cv t assms by (simp add: prepare_def drawOverlay_eq)
  then show ?thesis
    using assms cv by (simp add: handleSave_def flatten_def toDataURL_def)
qed

theorem export_draws_image_unfiltered_witness:
  "imageData brightSession = Some (Uploaded ''data:red'')
   \<and> natural_size demoBrowser (Uploaded ''data:red'') = Some (100, 100)
   \<and> brightness brightSession = 120 \<and> contrast brightSession = 100
   \<and> saturation brightSession = 100 \<and> rotation brightSession = 0
   \<and> completedCrop brightSession = None \<and> textAnnotations brightSession = []
   \<and> drawCanvasRef brightSession = Some \<lparr>dc_width = 100, dc_height = 100, dc_log = []\<rparr>
   \<and> snd (handleSave demoBrowser brightSession) =
       Download ''edited-image.png''
         (DataURL ''image/png'' (Some 1) 100 100
            [DrawImage FNone [] (Img (Uploaded ''data:red'')) None 0 0 (Some (100, 100)),
             DrawImage (FTone 120 100 100) [] (Surface 100 100 []) None 0 0 (Some (100, 100))])"
  using export_draws_image_unfiltered [of brightSession "Uploaded ''data:red''" demoBrowser 100 100]
  by (simp add: demo_defs brightSession_def handler_defs canvas_defs mimeType_def)


















text \<open>
  C6. Under the same conditions, for annotations at positions \<open>i < j\<close> of the list (a
  click appends a new annotation after the existing ones, so \<open>i\<close> was created first),
  the export makes the \<^verbatim>\<open>fillText\<close> call of annotation \<open>i\<close> at position \<open>n + i\<close> of the
  raster's drawing calls and that of annotation \<open>j\<close> at the later position \<open>n + j\<close>.
  Hence at a point that the call of \<open>j\<close> covers, the call that shows in the end comes
  after the call of \<open>i\<close>.
\<close>

theorem text_z_order:
  assumes "imageData st = Some d" "truthy (Some d)" "ctx2d env"
    and "natural_size env d = Some (nw, nh)"
    and "prepare env st d nw nh = Inr cv"
    and "imageRef st = Some (iw, ih)" "iw \<noteq> 0" "ih \<noteq> 0"
    and "i < j" "j < length (textAnnotations st)"
    and "n = length (cv_log cv)"
    and "out = snd (handleSave env st)"
  shows "out = Download (fileName st)
                 (DataURL (mimeType st) (Some 1) (cv_width cv) (cv_height cv) (exportLog out))
    \<and> length (exportLog out) = n + length (textAnnotations st)
    \<and> (\<exists>f xf font. exportLog out ! (n + i) =
          FillText f xf font (ta_color (textAnnotations st ! i)) (ta_text (textAnnotations st ! i))
            (ta_x (textAnnotations st ! i) * (of_nat (cv_width cv) / of_nat iw))
            (ta_y (textAnnotations st ! i) * (of_nat (cv_height cv) / of_nat ih)))
    \<and> (\<exists>f xf font. exportLog out ! (n + j) =
          FillText f xf font (ta_color (textAnnotations st ! j)) (ta_text (textAnnotations st ! j))
            (ta_x (textAnnotations st ! j) * (of_nat (cv_width cv) / of_nat iw))
            (ta_y (textAnnotations st ! j) * (of_nat (cv_height cv) / of_nat ih)))
    \<and> (covers (exportLog out ! (n + j)) p \<longrightarrow>
          (\<exists>k. top_draw covers (exportLog out) p = Some k \<and> n + i < k))
    \<and> take (length (textAnnotations st)) (textAnnotations (textOverlayClick clientX clientY r st))
          = textAnnotations st"
proof -
  let ?f = "\<lambda>a. FillText (cs_filter (cv_state cv))
                   (cs_transform (cv_state cv) @
                      (if transformed st then
                         [Translate (of_nat (cv_width cv) / 2) (of_nat (cv_height cv) / 2),
                          Rotate (rotation st),
                          Scale (if horizontal (flip st) then - 1 else 1)
                                (if vertical (flip st) then - 1 else 1),
                          Translate (- (of_nat (cv_width cv) / 2)) (- (of_nat (cv_height cv) / 2))]
                       else []))
                   (if 0 \<le> ta_fontSize a * min (of_nat (cv_width cv) / of_nat iw) (of_nat (cv_height cv) / of_nat ih)
                    then (ta_fontSize a * min (of_nat (cv_width cv) / of_nat iw) (of_nat (cv_height cv) / of_nat ih), ''Arial'')
                    else cs_font (cv_state cv))
                   (ta_color a) (ta_text a)
                   (ta_x a * (of_nat (cv_width cv) / of_nat iw))
                   (ta_y a * (of_nat (cv_height cv) / of_nat ih))"
  have o: "out = Download (fileName st)
        (DataURL (mimeType st) (Some 1) (cv_width cv) (cv_height cv)
           (cv_log cv @ map ?f (textAnnotations st)))"
    using handleSave_prepared [OF assms(1-5) drawTexts_adds [OF assms(6-8)]] assms(12)
    by simp
  then have l: "exportLog out = cv_log cv @ map ?f (textAnnotations st)" by simp
  have ij: "i < length (textAnnotations st)" using assms(9,10) by simp
  have ni: "exportLog out ! (n + i) = ?f (textAnnotations st ! i)"
    using ij by (simp add: l assms(11) nth_append)
  have nj: "exportLog out ! (n + j) = ?f (textAnnotations st ! j)"
    using assms(10) by (simp add: l assms(11) nth_append)
  have len: "length (exportLog out) = n + length (textAnnotations st)"
    by (simp add: l assms(11))
  have top: "covers (exportLog out ! (n + j)) p \<longrightarrow>
          (\<exists>k. top_draw covers (exportLog out) p = Some k \<and> n + i < k)"
  proof
    assume c: "covers (exportLog out ! (n + j)) p"
    have "n + j < length (exportLog out)" using len assms(10) by simp
    from top_draw_above [of "n + j" "exportLog out" covers p, OF this c] obtain k
      where "top_draw covers (exportLog out) p = Some k" "n + j \<le> k" by blast
    with assms(9) show "\<exists>k. top_draw covers (exportLog out) p = Some k \<and> n + i < k"
      by auto
  qed
  from o l have o': "out = Download (fileName st)
        (DataURL (mimeType st) (Some 1) (cv_width cv) (cv_height cv) (exportLog out))"
    by simp
  show ?thesis
    using o' len ni nj top textOverlayClick_appends by blast
qed

theorem text_z_order_witness:
  "imageData textSession = Some (Uploaded ''data:red'')
   \<and> natural_size demoBrowser (Uploaded ''data:red'') = Some (100, 100)
   \<and> imageRef textSession = Some (100, 50)
   \<and> length (textAnnotations textSession) = 2
   \<and> exportLog (snd (handleSave demoBrowser textSession)) ! 2 =
        FillText (FTone 100 100 100) [] (10, ''Arial'') ''#000000'' ''first'' 20 50
   \<and> exportLog (snd (handleSave demoBrowser textSession)) ! 3 =
        FillText (FTone 100 100 100) [] (10, ''Arial'') ''#000000'' ''second'' 30 50
   \<and> top_draw (\<lambda>d p. True) (exportLog (snd (handleSave demoBrowser textSession))) () = Some 3"
proof -
  have h1: "imageData textSession = Some (Uploaded ''data:red'')"
    and h6: "imageRef textSession = Some (100, 50)"
    by (simp_all add: textSession_state)
  have h2: "truthy (Some (Uploaded ''data:red''))" by simp
  have h3: "ctx2d demoBrowser"
    and h4: "natural_size demoBrowser (Uploaded ''data:red'') = Some (100, 100)"
    by (simp_all add: demoBrowser_decode)
  have h7: "(100::nat) \<noteq> 0" and h8: "(50::nat) \<noteq> 0" and h9: "(0::nat) < 1" by simp_all
  have h10: "1 < length (textAnnotations textSession)" by (simp add: textSession_state)
  have h11: "(2::nat) = length (cv_log \<lparr>cv_width = 100, cv_height = 100,
             cv_state = \<lparr>cs_filter = FTone 100 100 100, cs_transform = [],
                          cs_fillStyle = ''#000000'', cs_font = (10, ''sans-serif'')\<rparr>,
             cv_stack = [],
             cv_log = [DrawImage FNone [] (Img (Uploaded ''data:red'')) None 0 0 (Some (100, 100)),
                       DrawImage (FTone 100 100 100) [] (Surface 100 100 []) None 0 0
                         (Some (100, 100))]\<rparr>)" by simp
  have e: "exportLog (snd (handleSave demoBrowser textSession)) =
      [DrawImage FNone [] (Img (Uploaded ''data:red'')) None 0 0 (Some (100, 100)),
       DrawImage (FTone 100 100 100) [] (Surface 100 100 []) None 0 0 (Some (100, 100)),
       FillText (FTone 100 100 100) [] (10, ''Arial'') ''#000000'' ''first'' 20 50,
       FillText (FTone 100 100 100) [] (10, ''Arial'') ''#000000'' ''second'' 30 50]"
    by (simp add: demo_defs textSession_def handler_defs canvas_defs export_defs)
  from text_z_order [OF h1 h2 h3 h4 textSession_prepare h6 h7 h8 h9 h10 h11 refl,
      of "\<lambda>d p. True" "()"]
  show ?thesis
    by (simp add: textSession_state demoBrowser_decode e top_draw_all)
qed

end
